theory Spec2Isabelle
  imports Complex_Main
begin

section \<open>The rate limiter (checkRateLimit)\<close>

text \<open>
  The limiter keeps one record per client identifier in a process-wide \<open>Map\<close>.
  The map is modelled as a partial function that each call takes and returns; the
  clock reading \<open>Date.now()\<close> is an argument (milliseconds, an integer).  Counts
  and timestamps are far below \<open>2^53\<close>, so JavaScript's numbers behave as
  integers here.  A call of the synchronous function runs to completion before the
  next one starts, so a call is one step of the model.
\<close>

record RateLimitRecord =
  count :: int
  resetAt :: int

record RateLimitStatus =
  allowed :: bool
  remaining :: int
  status_resetAt :: int

type_synonym rate_limits = "string \<rightharpoonup> RateLimitRecord"

definition checkRateLimit ::
  "rate_limits \<Rightarrow> int \<Rightarrow> string \<Rightarrow> int \<Rightarrow> int \<Rightarrow> RateLimitStatus \<times> rate_limits" where
  "checkRateLimit rateLimitMap now identifier maxRequests windowMs =
     (case rateLimitMap identifier of
        None \<Rightarrow>
          (\<lparr>allowed = True, remaining = maxRequests - 1, status_resetAt = now + windowMs\<rparr>,
           rateLimitMap(identifier \<mapsto> \<lparr>count = 1, resetAt = now + windowMs\<rparr>))
      | Some record \<Rightarrow>
          if now > resetAt record then
            (\<lparr>allowed = True, remaining = maxRequests - 1, status_resetAt = now + windowMs\<rparr>,
             rateLimitMap(identifier \<mapsto> \<lparr>count = 1, resetAt = now + windowMs\<rparr>))
          else if count record \<ge> maxRequests then
            (\<lparr>allowed = False, remaining = 0, status_resetAt = resetAt record\<rparr>, rateLimitMap)
          else
            (\<lparr>allowed = True, remaining = maxRequests - (count record + 1),
              status_resetAt = resetAt record\<rparr>,
             rateLimitMap(identifier \<mapsto> record\<lparr>count := count record + 1\<rparr>)))"

text \<open>
  A sequence of calls for one identifier, one per clock reading, in the order the
  calls run: the statuses returned and the map left behind.
\<close>

fun checkRateLimit_calls ::
  "rate_limits \<Rightarrow> string \<Rightarrow> int \<Rightarrow> int \<Rightarrow> int list \<Rightarrow> RateLimitStatus list \<times> rate_limits" where
  "checkRateLimit_calls m identifier maxRequests windowMs [] = ([], m)"
| "checkRateLimit_calls m identifier maxRequests windowMs (now # nows) =
     (let (r, m') = checkRateLimit m now identifier maxRequests windowMs;
          (rs, m'') = checkRateLimit_calls m' identifier maxRequests windowMs nows
      in (r # rs, m''))"

text \<open>A call opens a window when the identifier is new or its stored window has expired.\<close>

definition opens_window :: "rate_limits \<Rightarrow> string \<Rightarrow> int \<Rightarrow> bool" where
  "opens_window m identifier now =
     (case m identifier of None \<Rightarrow> True | Some record \<Rightarrow> now > resetAt record)"

text \<open>
  The status that the call number \<open>i\<close> (from 0) of a run inside the window of
  \<open>record\<close> returns, when the run starts from \<open>record\<close>.
\<close>

definition in_window_status :: "RateLimitRecord \<Rightarrow> int \<Rightarrow> nat \<Rightarrow> RateLimitStatus" where
  "in_window_status record maxRequests i =
     (if count record + int i < maxRequests
      then \<lparr>allowed = True, remaining = maxRequests - (count record + int i + 1),
            status_resetAt = resetAt record\<rparr>
      else \<lparr>allowed = False, remaining = 0, status_resetAt = resetAt record\<rparr>)"


section \<open>JavaScript strings\<close>

text \<open>
  A JavaScript string is a sequence of UTF-16 code units and \<open>length\<close> counts
  them.  The model uses \<open>string\<close>: code units below 256, one \<open>char\<close> each.
  Code units from 256 on are outside the model.  \<open>trim\<close> removes the white space
  and line terminators of ECMAScript that lie in this range from both ends.
\<close>

definition isWhiteSpace :: "char \<Rightarrow> bool" where
  "isWhiteSpace c = (c \<in> set [CHR 0x09, CHR 0x0A, CHR 0x0B, CHR 0x0C, CHR 0x0D, CHR 0x20, CHR 0xA0])"

definition trim :: "string \<Rightarrow> string" where
  "trim s = rev (dropWhile isWhiteSpace (rev (dropWhile isWhiteSpace s)))"

text \<open>\<open>s.split(sep)\<close> for a one-character separator; \<open>acc\<close> holds the current piece reversed.\<close>

fun split_acc :: "char \<Rightarrow> string \<Rightarrow> string \<Rightarrow> string list" where
  "split_acc sep acc [] = [rev acc]"
| "split_acc sep acc (c # cs) =
     (if c = sep then rev acc # split_acc sep [] cs else split_acc sep (c # acc) cs)"

definition split :: "string \<Rightarrow> char \<Rightarrow> string list" where
  "split s sep = split_acc sep [] s"

text \<open>\<open>toLowerCase\<close> on code units below 256: A-Z, and the Latin-1 capitals but the
  multiplication sign.\<close>

definition toLowerCase_char :: "char \<Rightarrow> char" where
  "toLowerCase_char c =
     (let n = (of_char c :: nat)
      in if (65 \<le> n \<and> n \<le> 90) \<or> (192 \<le> n \<and> n \<le> 222 \<and> n \<noteq> 215)
         then char_of (n + 32) else c)"

definition toLowerCase :: "string \<Rightarrow> string" where
  "toLowerCase s = map toLowerCase_char s"

text \<open>\<open>Number.prototype.toString\<close> on a natural number, for the template literals.\<close>

fun toString_nat :: "nat \<Rightarrow> string" where
  "toString_nat n =
     (if n < 10 then [char_of (48 + n)]
      else toString_nat (n div 10) @ [char_of (48 + n mod 10)])"

section \<open>Errors and query values\<close>

text \<open>
  The classes \<open>CustomError\<close> and \<open>MissingParamError\<close> come from
  \<open>src/common/error.js\<close>, which is not among the sources.  They are modelled as two
  constructors: a \<open>CustomError\<close> is not an instance of \<open>MissingParamError\<close>.
  The \<open>catch\<close> blocks test \<open>instanceof MissingParamError\<close> first, so whether a
  \<open>MissingParamError\<close> is also a \<open>CustomError\<close> makes no difference.  The second
  argument of \<open>CustomError\<close> is one of its static constants.  \<open>OtherError\<close> is
  any other thrown value (a \<open>TypeError\<close> of the runtime, a failure inside a
  collaborator).
\<close>

datatype error_type = MISSING_PARAMETER | API_ERROR

datatype error =
    MissingParamError "string list"
  | CustomError string error_type
  | OtherError string

text \<open>
  A value of \<open>req.query\<close> is a string, or an array of strings when the parameter is
  repeated; an absent parameter is \<open>undefined\<close> (\<open>None\<close>).
\<close>

datatype qval = QString string | QArray "string list"

text \<open>\<open>!v\<close> is false for \<open>undefined\<close> and the empty string; an array is truthy.\<close>

fun truthy_q :: "qval option \<Rightarrow> bool" where
  "truthy_q None = False"
| "truthy_q (Some (QString s)) = (s \<noteq> [])"
| "truthy_q (Some (QArray xs)) = True"

section \<open>Input validation (validateUsername, validateStringInput, validateSkills, parseJobRole)\<close>

text \<open>
  \<open>githubUsernameRegex\<close> is the npm package \<open>github-username-regex\<close>; its
  \<open>test\<close> is a parameter of the model.
\<close>

definition validateUsername :: "(string \<Rightarrow> bool) \<Rightarrow> qval option \<Rightarrow> error + string" where
  "validateUsername githubUsernameRegex_test username =
     (case username of
        Some (QString s) \<Rightarrow>
          if s = [] then Inl (CustomError ''Username is required and must be a string'' MISSING_PARAMETER)
          else
            let trimmedUsername = trim s in
            if length trimmedUsername = 0 then
              Inl (CustomError ''Username cannot be empty'' MISSING_PARAMETER)
            else if length trimmedUsername > 39 then
              Inl (CustomError ''Username must be 39 characters or less'' MISSING_PARAMETER)
            else if \<not> githubUsernameRegex_test trimmedUsername then
              Inl (CustomError ''Invalid GitHub username format'' MISSING_PARAMETER)
            else Inr trimmedUsername
      | _ \<Rightarrow> Inl (CustomError ''Username is required and must be a string'' MISSING_PARAMETER))"

definition validateStringInput :: "qval option \<Rightarrow> string \<Rightarrow> nat \<Rightarrow> error + string" where
  "validateStringInput v fieldName maxLength =
     (case v of
        Some (QString s) \<Rightarrow>
          if s = [] then
            Inl (CustomError (fieldName @ '' is required and must be a string'') MISSING_PARAMETER)
          else
            let trimmed = trim s in
            if length trimmed = 0 then
              Inl (CustomError (fieldName @ '' cannot be empty'') MISSING_PARAMETER)
            else if length trimmed > maxLength then
              Inl (CustomError (fieldName @ '' must be '' @ toString_nat maxLength @ '' characters or less'')
                     MISSING_PARAMETER)
            else Inr trimmed
      | _ \<Rightarrow> Inl (CustomError (fieldName @ '' is required and must be a string'') MISSING_PARAMETER))"

text \<open>The loop over the skills: the first skill longer than 50 code units throws.\<close>

fun each_skill :: "string \<Rightarrow> string list \<Rightarrow> error option" where
  "each_skill fieldName [] = None"
| "each_skill fieldName (skill # skills) =
     (if length skill > 50 then
        Some (CustomError (''Each skill in '' @ fieldName @ '' must be 50 characters or less'')
                MISSING_PARAMETER)
      else each_skill fieldName skills)"

definition validateSkills :: "qval option \<Rightarrow> string \<Rightarrow> bool \<Rightarrow> error + string list" where
  "validateSkills skillsString fieldName required =
     (if \<not> truthy_q skillsString then
        (if required then Inl (CustomError (fieldName @ '' is required'') MISSING_PARAMETER)
         else Inr [])
      else
        case skillsString of
          Some (QString s) \<Rightarrow>
            let skills = filter (\<lambda>x. x \<noteq> []) (map trim (split s CHR '','')) in
            if required \<and> length skills = 0 then
              Inl (CustomError (fieldName @ '' must contain at least one skill'') MISSING_PARAMETER)
            else if length skills > 50 then
              Inl (CustomError (fieldName @ '' cannot contain more than 50 skills'') MISSING_PARAMETER)
            else (case each_skill fieldName skills of
                    Some e \<Rightarrow> Inl e
                  | None \<Rightarrow> Inr skills)
        | _ \<Rightarrow> Inl (CustomError (fieldName @ '' must be a comma-separated string'') MISSING_PARAMETER))"

record JobRole =
  title :: string
  required_skills :: "string list"
  nice_to_have_skills :: "string list"
  seniority :: string
  focus :: string

text \<open>
  \<open>seniority.toLowerCase()\<close> on an array is a call of \<open>undefined\<close>: the runtime
  throws a \<open>TypeError\<close>.
\<close>

definition lowered :: "qval option \<Rightarrow> error + string" where
  "lowered v =
     (case v of
        Some (QString s) \<Rightarrow> Inr (toLowerCase s)
      | _ \<Rightarrow> Inl (OtherError ''TypeError''))"

definition parseJobRole :: "(string \<Rightarrow> qval option) \<Rightarrow> error + JobRole" where
  "parseJobRole q =
     (let job_title = q ''job_title'';
          required_skills = q ''required_skills'';
          nice_to_have_skills = q ''nice_to_have_skills'';
          seniority = q ''seniority'';
          focus = q ''focus''
      in
      if \<not> truthy_q job_title \<or> \<not> truthy_q required_skills \<or> \<not> truthy_q seniority \<or> \<not> truthy_q focus
      then Inl (MissingParamError [''job_title'', ''required_skills'', ''seniority'', ''focus''])
      else
       (case validateStringInput job_title ''job_title'' 100 of
          Inl e \<Rightarrow> Inl e
        | Inr validatedJobTitle \<Rightarrow>
       (case validateSkills required_skills ''required_skills'' True of
          Inl e \<Rightarrow> Inl e
        | Inr validatedRequiredSkills \<Rightarrow>
       (case validateSkills nice_to_have_skills ''nice_to_have_skills'' False of
          Inl e \<Rightarrow> Inl e
        | Inr validatedNiceToHaveSkills \<Rightarrow>
       (case lowered seniority of
          Inl e \<Rightarrow> Inl e
        | Inr lowerSeniority \<Rightarrow>
          if lowerSeniority \<notin> set [''junior'', ''mid'', ''senior''] then
            Inl (CustomError ''Invalid seniority. Must be one of: junior, mid, senior'' MISSING_PARAMETER)
          else
       (case lowered focus of
          Inl e \<Rightarrow> Inl e
        | Inr lowerFocus \<Rightarrow>
          if lowerFocus \<notin> set [''frontend'', ''backend'', ''fullstack'', ''data'', ''infra''] then
            Inl (CustomError ''Invalid focus. Must be one of: frontend, backend, fullstack, data, infra''
                   MISSING_PARAMETER)
          else
            Inr \<lparr>title = validatedJobTitle,
                 required_skills = validatedRequiredSkills,
                 nice_to_have_skills = validatedNiceToHaveSkills,
                 seniority = lowerSeniority,
                 focus = lowerFocus\<rparr>))))))"

section \<open>Numbers and JSON values\<close>

text \<open>
  A JavaScript number is modelled as an exact rational, an infinity or \<open>NaN\<close>.
  Rounding to the nearest double and the sign of zero are not modelled.
\<close>

datatype number = NaN | NegativeInfinity | Finite rat | PositiveInfinity

text \<open>\<open>a < b\<close> on numbers: false as soon as one side is \<open>NaN\<close>.\<close>

fun number_less :: "number \<Rightarrow> number \<Rightarrow> bool" where
  "number_less NaN _ = False"
| "number_less _ NaN = False"
| "number_less PositiveInfinity _ = False"
| "number_less _ NegativeInfinity = False"
| "number_less NegativeInfinity _ = True"
| "number_less _ PositiveInfinity = True"
| "number_less (Finite a) (Finite b) = (a < b)"

text \<open>\<open>Math.min\<close> and \<open>Math.max\<close> of two numbers: \<open>NaN\<close> if either is.\<close>

fun Math_min :: "number \<Rightarrow> number \<Rightarrow> number" where
  "Math_min NaN _ = NaN"
| "Math_min _ NaN = NaN"
| "Math_min a b = (if number_less b a then b else a)"

fun Math_max :: "number \<Rightarrow> number \<Rightarrow> number" where
  "Math_max NaN _ = NaN"
| "Math_max _ NaN = NaN"
| "Math_max a b = (if number_less a b then b else a)"

text \<open>
  What \<open>JSON.parse\<close> returns.  An object is the list of its own properties, in
  insertion order, each key once.
\<close>

datatype json =
    JNull
  | JBool bool
  | JNumber number
  | JString string
  | JArray "json list"
  | JObject "(string \<times> json) list"

section \<open>The request handler with the rate limiter and the validators\<close>

text \<open>
  The default export of the endpoint file that holds \<open>validateUsername\<close>,
  \<open>checkRateLimit\<close> and \<open>parseJobRole\<close>.
\<close>

record AnalyzeOptions =
  include_all_commits :: "bool option"
  openai_api_key :: string
  model :: string

text \<open>
  What the handler imports from files that are not among the sources, as parameters:
  the username pattern, \<open>parseBoolean\<close> (\<open>src/common/ops.js\<close>), the cache
  duration that \<open>resolveCacheSeconds\<close> computes from the raw \<open>cache_seconds\<close>
  parameter (\<open>src/common/cache.js\<close>, with \<open>parseInt\<close> and the \<open>CACHE_TTL\<close>
  bounds), the message of a \<open>MissingParamError\<close>, and \<open>analyzeCandidate\<close>, whose
  result depends on the GitHub and OpenAI services (its type is a parameter: the two
  endpoint files pass it different arguments).  \<open>parseBoolean\<close>,
  \<open>resolveCacheSeconds\<close>, the two cache-header setters and the methods of \<open>res\<close>
  are taken to return normally.  Log lines are not modelled.
\<close>

record 'f collaborators =
  githubUsernameRegex_test :: "string \<Rightarrow> bool"
  parseBoolean :: "qval option \<Rightarrow> bool option"
  resolveCacheSeconds :: "qval option \<Rightarrow> int"
  missingParamMessage :: "string list \<Rightarrow> string"
  analyzeCandidate :: 'f

type_synonym analyzeCandidate_fn = "string \<Rightarrow> JobRole \<Rightarrow> AnalyzeOptions \<Rightarrow> error + json"

text \<open>
  The process: the limiter's map, the environment variable, and the two readings of
  \<open>Date.now()\<close> one invocation can make (inside \<open>checkRateLimit\<close>, and for
  \<open>retryAfter\<close>).
\<close>

record server =
  rateLimitMap :: rate_limits
  OPENAI_API_KEY :: "string option"
  now :: int
  now_retryAfter :: int

record request =
  query :: "string \<Rightarrow> qval option"
  headers :: "string \<Rightarrow> string option"
  socket_remoteAddress :: "string option"

text \<open>
  The response is what the handler did to \<open>res\<close>: the \<open>setHeader\<close> calls in
  order, the calls of \<open>setCacheHeaders\<close> and \<open>setErrorCacheHeaders\<close> (their
  bodies are in \<open>src/common/cache.js\<close>), the status and the JSON body.
\<close>

datatype header_value = Text string | NumberToString int | ISOString int

datatype cache_call = SetCacheHeaders int | SetErrorCacheHeaders

datatype body =
    ErrorBody string
  | RateLimitBody string int
  | AnalysisBody json

record response =
  setHeader_calls :: "(string \<times> header_value) list"
  cache_calls :: "cache_call list"
  status :: nat
  body :: body

record outcome =
  res :: response
  rateLimitMap_after :: rate_limits
  analyzeCandidate_calls :: "(string \<times> JobRole \<times> AnalyzeOptions) list"

fun truthy_s :: "string option \<Rightarrow> bool" where
  "truthy_s None = False"
| "truthy_s (Some s) = (s \<noteq> [])"

definition getClientIdentifier :: "request \<Rightarrow> string" where
  "getClientIdentifier req =
     (let forwarded = headers req ''x-forwarded-for'';
          realIp = headers req ''x-real-ip''
      in if truthy_s forwarded then trim (hd (split (the forwarded) CHR '',''))
         else if truthy_s realIp then the realIp
         else if truthy_s (socket_remoteAddress req) then the (socket_remoteAddress req)
         else ''unknown'')"

text \<open>The \<open>catch\<close> block of the handler.\<close>

definition catch_block :: "'f collaborators \<Rightarrow> (string \<times> header_value) list \<Rightarrow> error \<Rightarrow> response" where
  "catch_block c hdrs e =
     (case e of
        MissingParamError ps \<Rightarrow>
          \<lparr>setHeader_calls = hdrs, cache_calls = [SetErrorCacheHeaders], status = 400,
           body = ErrorBody (missingParamMessage c ps)\<rparr>
      | CustomError message t \<Rightarrow>
          \<lparr>setHeader_calls = hdrs, cache_calls = [SetErrorCacheHeaders], status = 500,
           body = ErrorBody message\<rparr>
      | OtherError x \<Rightarrow>
          \<lparr>setHeader_calls = hdrs, cache_calls = [SetErrorCacheHeaders], status = 500,
           body = ErrorBody ''An unexpected error occurred while analyzing the candidate''\<rparr>)"

text \<open>\<open>openai_model || "gpt-4o"\<close>, replaced by the default when it is not a valid model.\<close>

definition validModel :: "qval option \<Rightarrow> string" where
  "validModel openai_model =
     (let requestedModel = (if truthy_q openai_model then the openai_model else QString ''gpt-4o'')
      in case requestedModel of
           QString s \<Rightarrow>
             if s \<in> set [''gpt-4o'', ''gpt-4-turbo'', ''gpt-4'', ''gpt-3.5-turbo''] then s else ''gpt-4o''
         | QArray xs \<Rightarrow> ''gpt-4o'')"

definition handler :: "analyzeCandidate_fn collaborators \<Rightarrow> server \<Rightarrow> request \<Rightarrow> outcome" where
  "handler c srv req =
     (let clientId = getClientIdentifier req;
          (rateLimit, limits) = checkRateLimit (rateLimitMap srv) (now srv) clientId 10 60000
      in
      if \<not> allowed rateLimit then
        \<lparr>res = \<lparr>setHeader_calls =
                   [(''Content-Type'', Text ''application/json''),
                    (''X-RateLimit-Limit'', Text ''10''),
                    (''X-RateLimit-Remaining'', Text ''0''),
                    (''X-RateLimit-Reset'', ISOString (status_resetAt rateLimit))],
                 cache_calls = [], status = 429,
                 body = RateLimitBody ''Rate limit exceeded. Maximum 10 requests per minute.''
                          \<lceil>of_int (status_resetAt rateLimit - now_retryAfter srv) / (1000 :: rat)\<rceil>\<rparr>,
         rateLimitMap_after = limits, analyzeCandidate_calls = []\<rparr>
      else
        let hdrs = [(''Content-Type'', Text ''application/json''),
                    (''X-RateLimit-Limit'', Text ''10''),
                    (''X-RateLimit-Remaining'', NumberToString (remaining rateLimit)),
                    (''X-RateLimit-Reset'', ISOString (status_resetAt rateLimit))]
        in
        (case validateUsername (githubUsernameRegex_test c) (query req ''username'') of
           Inl error \<Rightarrow>
             \<lparr>res = \<lparr>setHeader_calls = hdrs, cache_calls = [], status = 400,
                      body = ErrorBody (case error of CustomError message t \<Rightarrow> message
                                        | _ \<Rightarrow> ''Invalid username parameter'')\<rparr>,
              rateLimitMap_after = limits, analyzeCandidate_calls = []\<rparr>
         | Inr validatedUsername \<Rightarrow>
             if \<not> truthy_s (OPENAI_API_KEY srv) then
               \<lparr>res = \<lparr>setHeader_calls = hdrs, cache_calls = [], status = 500,
                        body = ErrorBody ''OpenAI API key is not configured. Please set OPENAI_API_KEY environment variable.''\<rparr>,
                rateLimitMap_after = limits, analyzeCandidate_calls = []\<rparr>
             else
               (case parseJobRole (query req) of
                  Inl e \<Rightarrow>
                    \<lparr>res = catch_block c hdrs e,
                     rateLimitMap_after = limits, analyzeCandidate_calls = []\<rparr>
                | Inr jobRole \<Rightarrow>
                    let options = \<lparr>include_all_commits = parseBoolean c (query req ''include_all_commits''),
                                   openai_api_key = the (OPENAI_API_KEY srv),
                                   model = validModel (query req ''openai_model'')\<rparr>
                    in
                    (case analyzeCandidate c validatedUsername jobRole options of
                       Inl e \<Rightarrow>
                         \<lparr>res = catch_block c hdrs e,
                          rateLimitMap_after = limits,
                          analyzeCandidate_calls = [(validatedUsername, jobRole, options)]\<rparr>
                     | Inr analysis \<Rightarrow>
                         \<lparr>res = \<lparr>setHeader_calls = hdrs,
                                  cache_calls = [SetCacheHeaders (resolveCacheSeconds c (query req ''cache_seconds''))],
                                  status = 200, body = AnalysisBody analysis\<rparr>,
                          rateLimitMap_after = limits,
                          analyzeCandidate_calls = [(validatedUsername, jobRole, options)]\<rparr>))))"

section \<open>The request handler of api/analyze.js\<close>

text \<open>
  The file \<open>api/analyze.js\<close> holds an endpoint without the limiter and the
  validators; it hands the raw query values on.
\<close>

record JobRole_raw =
  raw_title :: qval
  raw_required_skills :: "string list"
  raw_nice_to_have_skills :: "string list"
  raw_seniority :: string
  raw_focus :: string

record AnalyzeOptions_raw =
  raw_include_all_commits :: "bool option"
  raw_openai_api_key :: qval
  raw_model :: qval

type_synonym analyzeCandidate_raw_fn = "qval \<Rightarrow> JobRole_raw \<Rightarrow> AnalyzeOptions_raw \<Rightarrow> error + json"

text \<open>\<open>v.split(",").map((s) => s.trim()).filter(Boolean)\<close>; an array has no \<open>split\<close>.\<close>

definition split_skills :: "qval \<Rightarrow> error + string list" where
  "split_skills v =
     (case v of
        QString s \<Rightarrow> Inr (filter (\<lambda>x. x \<noteq> []) (map trim (split s CHR '','')))
      | QArray xs \<Rightarrow> Inl (OtherError ''TypeError''))"

definition analyze_js_parseJobRole :: "(string \<Rightarrow> qval option) \<Rightarrow> error + JobRole_raw" where
  "analyze_js_parseJobRole q =
     (let job_title = q ''job_title'';
          required_skills = q ''required_skills'';
          nice_to_have_skills = q ''nice_to_have_skills'';
          seniority = q ''seniority'';
          focus = q ''focus''
      in
      if \<not> truthy_q job_title \<or> \<not> truthy_q required_skills \<or> \<not> truthy_q seniority \<or> \<not> truthy_q focus
      then Inl (MissingParamError [''job_title'', ''required_skills'', ''seniority'', ''focus''])
      else
       (case lowered seniority of
          Inl e \<Rightarrow> Inl e
        | Inr lowerSeniority \<Rightarrow>
          if lowerSeniority \<notin> set [''junior'', ''mid'', ''senior''] then
            Inl (CustomError ''Invalid seniority. Must be one of: junior, mid, senior'' MISSING_PARAMETER)
          else
       (case lowered focus of
          Inl e \<Rightarrow> Inl e
        | Inr lowerFocus \<Rightarrow>
          if lowerFocus \<notin> set [''frontend'', ''backend'', ''fullstack'', ''data'', ''infra''] then
            Inl (CustomError ''Invalid focus. Must be one of: frontend, backend, fullstack, data, infra''
                   MISSING_PARAMETER)
          else
       (case split_skills (the required_skills) of
          Inl e \<Rightarrow> Inl e
        | Inr required \<Rightarrow>
       (case (if truthy_q nice_to_have_skills then split_skills (the nice_to_have_skills) else Inr []) of
          Inl e \<Rightarrow> Inl e
        | Inr nice \<Rightarrow>
            Inr \<lparr>raw_title = the job_title,
                 raw_required_skills = required,
                 raw_nice_to_have_skills = nice,
                 raw_seniority = lowerSeniority,
                 raw_focus = lowerFocus\<rparr>)))))"

definition analyze_js_handler ::
  "analyzeCandidate_raw_fn collaborators \<Rightarrow> string option \<Rightarrow> request \<Rightarrow>
     response \<times> (qval \<times> JobRole_raw \<times> AnalyzeOptions_raw) list" where
  "analyze_js_handler c env_OPENAI_API_KEY req =
     (let username = query req ''username'';
          openai_model = query req ''openai_model'';
          openai_api_key = query req ''openai_api_key'';
          hdrs = [(''Content-Type'', Text ''application/json'')]
      in
      if \<not> truthy_q username then
        (\<lparr>setHeader_calls = hdrs, cache_calls = [], status = 400,
          body = ErrorBody ''Missing required parameter: username''\<rparr>, [])
      else
        let apiKey = (if truthy_q openai_api_key then openai_api_key
                      else map_option QString env_OPENAI_API_KEY)
        in
        if \<not> truthy_q apiKey then
          (\<lparr>setHeader_calls = hdrs, cache_calls = [], status = 400,
            body = ErrorBody ''OpenAI API key is required. Provide 'openai_api_key' query parameter or set OPENAI_API_KEY environment variable.''\<rparr>, [])
        else
          (case analyze_js_parseJobRole (query req) of
             Inl e \<Rightarrow> (catch_block c hdrs e, [])
           | Inr jobRole \<Rightarrow>
               let options = \<lparr>raw_include_all_commits = parseBoolean c (query req ''include_all_commits''),
                              raw_openai_api_key = the apiKey,
                              raw_model = (if truthy_q openai_model then the openai_model
                                           else QString ''gpt-4o'')\<rparr>
               in
               (case analyzeCandidate c (the username) jobRole options of
                  Inl e \<Rightarrow> (catch_block c hdrs e, [(the username, jobRole, options)])
                | Inr analysis \<Rightarrow>
                    (\<lparr>setHeader_calls = hdrs,
                      cache_calls = [SetCacheHeaders (resolveCacheSeconds c (query req ''cache_seconds''))],
                      status = 200, body = AnalysisBody analysis\<rparr>,
                     [(the username, jobRole, options)]))))"

section \<open>The data aggregator (calculateCommitFrequency ... aggregateGitHubData)\<close>

text \<open>
  The commit classifiers take two JavaScript numbers; they are modelled on finite
  numbers, as exact rationals.  The division is behind the guard on a zero age, as
  in the source.
\<close>

definition calculateCommitFrequency :: "rat \<Rightarrow> rat \<Rightarrow> string" where
  "calculateCommitFrequency totalCommits accountAgeYears =
     (if accountAgeYears = 0 then ''low''
      else
        let commitsPerYear = totalCommits / accountAgeYears in
        if commitsPerYear < 50 then ''low''
        else if commitsPerYear < 200 then ''medium''
        else ''high'')"

definition calculateCommitConsistency :: "rat \<Rightarrow> rat \<Rightarrow> string" where
  "calculateCommitConsistency totalCommits accountAgeYears =
     (if accountAgeYears = 0 then ''sporadic''
      else
        let commitsPerYear = totalCommits / accountAgeYears;
            commitsPerMonth = commitsPerYear / 12
        in
        if commitsPerMonth < 2 then ''sporadic''
        else if commitsPerMonth < 10 then ''consistent''
        else ''very_consistent'')"

text \<open>A repository as \<open>TopRepository\<close> of the type declarations; a description can be \<open>null\<close>.\<close>

record TopRepository =
  name :: string
  stars :: nat
  forks :: nat
  is_original_work :: bool
  description :: "string option"

text \<open>\<open>repo.description && repo.description.length > n\<close>\<close>

definition description_longer :: "nat \<Rightarrow> TopRepository \<Rightarrow> bool" where
  "description_longer n repo =
     (case description repo of None \<Rightarrow> False | Some d \<Rightarrow> d \<noteq> [] \<and> length d > n)"

definition assessReadmeQuality :: "TopRepository list \<Rightarrow> string" where
  "assessReadmeQuality repositories =
     (if length repositories = 0 then ''poor''
      else
        let reposWithDescriptions = length (filter (description_longer 20) repositories);
            ratio = (of_nat reposWithDescriptions :: rat) / of_nat (length repositories)
        in
        if ratio < 3 / 10 then ''poor''
        else if ratio < 7 / 10 then ''average''
        else ''strong'')"

definition assessDocumentationSignal :: "TopRepository list \<Rightarrow> string" where
  "assessDocumentationSignal repositories =
     (if length repositories = 0 then ''low''
      else
        let reposWithDescriptions = length (filter (description_longer 30) repositories);
            ratio = (of_nat reposWithDescriptions :: rat) / of_nat (length repositories)
        in
        if ratio < 4 / 10 then ''low''
        else if ratio < 7 / 10 then ''medium''
        else ''high'')"

record CollaborationSignals =
  solo_projects_ratio :: rat
  team_projects_ratio :: rat

text \<open>\<open>contributedTo\<close> is a count of the GitHub API, a natural number.\<close>

definition calculateCollaborationSignals :: "TopRepository list \<Rightarrow> nat \<Rightarrow> CollaborationSignals" where
  "calculateCollaborationSignals repositories contributedTo =
     (let totalRepos = length repositories in
      if totalRepos = 0 then \<lparr>solo_projects_ratio = 1, team_projects_ratio = 0\<rparr>
      else
        let teamProjectsRatio = min ((of_nat contributedTo :: rat) / of_nat (totalRepos + contributedTo)) 1;
            soloProjectsRatio = 1 - teamProjectsRatio
        in \<lparr>solo_projects_ratio = soloProjectsRatio, team_projects_ratio = teamProjectsRatio\<rparr>)"

text \<open>
  The reply of the profile query, as \<open>retryer\<close> returns it: \<open>res.data.errors\<close> is
  set, or \<open>res.data.data.user\<close> is the user or \<open>null\<close>.  \<open>createdAt\<close> is the time
  value (milliseconds) of the \<open>Date\<close> that the API's \<open>DateTime\<close> string denotes.
\<close>

record github_user =
  repositories_totalCount :: nat
  followers_totalCount :: nat
  createdAt :: int

datatype profile_reply = ReplyErrors | ReplyUser "github_user option"

record Profile =
  public_repos :: nat
  followers :: nat
  account_age_years :: int

text \<open>
  \<open>retryer\<close> can throw (\<open>Inl\<close>).  Reading \<open>createdAt\<close> of a \<open>null\<close> user is a
  \<open>TypeError\<close>.  The year is \<open>1000 * 60 * 60 * 24 * 365\<close> milliseconds, and
  \<open>Math.floor\<close> of the quotient of two integers is \<open>div\<close> (the floating-point
  quotient of a time difference of some years does not round across an integer).
\<close>

definition fetchUserProfile :: "error + profile_reply \<Rightarrow> int \<Rightarrow> error + Profile" where
  "fetchUserProfile retryer_result now_ms =
     (case retryer_result of
        Inl e \<Rightarrow> Inl e
      | Inr ReplyErrors \<Rightarrow> Inr \<lparr>public_repos = 0, followers = 0, account_age_years = 1\<rparr>
      | Inr (ReplyUser None) \<Rightarrow> Inl (OtherError ''TypeError'')
      | Inr (ReplyUser (Some user)) \<Rightarrow>
          let accountAgeYears = max 1 ((now_ms - createdAt user) div (1000 * 60 * 60 * 24 * 365))
          in Inr \<lparr>public_repos = repositories_totalCount user,
                  followers = followers_totalCount user,
                  account_age_years = accountAgeYears\<rparr>)"

text \<open>What \<open>fetchStats\<close> and \<open>fetchTopLanguages\<close> resolve to (counts of the GitHub API).\<close>

record Stats =
  totalCommits :: nat
  totalPRs :: nat
  totalPRsMerged :: nat
  totalReviews :: nat
  totalIssues :: nat
  contributedTo :: nat

record Lang =
  lang_name :: string
  lang_size :: nat

record PrimaryLanguage =
  language :: string
  percentage :: rat

record PullRequestStats =
  pr_opened :: nat
  pr_merged :: nat
  pr_reviewed :: nat

record IssueStats =
  issues_opened :: nat
  issues_closed :: nat

record GitHubStats =
  total_commits_estimate :: nat
  commit_frequency :: string
  commit_consistency :: string
  primary_languages :: "PrimaryLanguage list"
  top_repositories :: "TopRepository list"
  pull_requests :: PullRequestStats
  issues :: IssueStats
  collaboration_signals :: CollaborationSignals
  readme_quality :: string
  documentation_signal :: string

record Candidate =
  username :: string
  profile :: Profile

record AnalyzerInput =
  candidate :: Candidate
  github_stats :: GitHubStats
  job_role :: "JobRole option"

text \<open>
  The three fetches are inputs: what \<open>fetchStats\<close> and \<open>fetchTopLanguages\<close>
  settle to (the values of the languages object in \<open>Object.values\<close> order), and the
  reply behind \<open>fetchUserProfile\<close>.  \<open>Promise.all\<close> rejects with the rejection that
  comes first in time; the model takes the first in array order.  The sort is stable
  and descending by percentage.
\<close>

definition aggregateGitHubData ::
  "string \<Rightarrow> error + Stats \<Rightarrow> error + Lang list \<Rightarrow> error + profile_reply \<Rightarrow> int \<Rightarrow> error + AnalyzerInput" where
  "aggregateGitHubData user fetchStats_result fetchTopLanguages_result retryer_result now_ms =
     (case fetchStats_result of
        Inl e \<Rightarrow> Inl e
      | Inr stats \<Rightarrow>
     (case fetchTopLanguages_result of
        Inl e \<Rightarrow> Inl e
      | Inr topLangs \<Rightarrow>
     (case fetchUserProfile retryer_result now_ms of
        Inl e \<Rightarrow> Inl e
      | Inr prof \<Rightarrow>
          let accountAgeYears = account_age_years prof;
              totalLangSize = foldl (\<lambda>sum lang. sum + lang_size lang) 0 topLangs;
              primaryLanguages =
                take 5 (sort_key (\<lambda>l. - percentage l)
                  (map (\<lambda>lang. \<lparr>language = lang_name lang,
                                  percentage = (if totalLangSize > 0
                                                then (of_nat (lang_size lang) / of_nat totalLangSize) * 100
                                                else 0)\<rparr>) topLangs));
              topRepositories = [];
              commitFrequency = calculateCommitFrequency (of_nat (totalCommits stats)) (of_int accountAgeYears);
              commitConsistency = calculateCommitConsistency (of_nat (totalCommits stats)) (of_int accountAgeYears);
              collaborationSignals = calculateCollaborationSignals topRepositories (contributedTo stats);
              readmeQuality = assessReadmeQuality topRepositories;
              documentationSignal = assessDocumentationSignal topRepositories
          in
          Inr \<lparr>candidate = \<lparr>username = user,
                             profile = \<lparr>public_repos = public_repos prof,
                                        followers = followers prof,
                                        account_age_years = accountAgeYears\<rparr>\<rparr>,
               github_stats =
                 \<lparr>total_commits_estimate = totalCommits stats,
                  commit_frequency = commitFrequency,
                  commit_consistency = commitConsistency,
                  primary_languages = primaryLanguages,
                  top_repositories = topRepositories,
                  pull_requests = \<lparr>pr_opened = totalPRs stats, pr_merged = totalPRsMerged stats,
                                    pr_reviewed = totalReviews stats\<rparr>,
                  issues = \<lparr>issues_opened = 0, issues_closed = totalIssues stats\<rparr>,
                  collaboration_signals = collaborationSignals,
                  readme_quality = readmeQuality,
                  documentation_signal = documentationSignal\<rparr>,
               job_role = None\<rparr>)))"

section \<open>The scoring client after JSON.parse (analyzeWithOpenAI)\<close>

text \<open>
  The text of \<open>openai-client.js\<close> stands in \<open>src/analyzer/README.md\<close>.  The
  model starts where \<open>JSON.parse(content)\<close> has returned \<open>analysis\<close>: the check
  of the four sections, the check of \<open>confidence_percentage\<close>, and the return.  An
  error thrown there that is not an axios error is thrown on by the outer
  \<open>catch\<close>.
\<close>

text \<open>\<open>!v\<close> is true for \<open>undefined\<close>, \<open>null\<close>, \<open>false\<close>, zero, \<open>NaN\<close> and the empty string.\<close>

fun truthy_json :: "json option \<Rightarrow> bool" where
  "truthy_json None = False"
| "truthy_json (Some JNull) = False"
| "truthy_json (Some (JBool b)) = b"
| "truthy_json (Some (JNumber n)) = (n \<noteq> Finite 0 \<and> n \<noteq> NaN)"
| "truthy_json (Some (JString s)) = (s \<noteq> [])"
| "truthy_json (Some (JArray xs)) = True"
| "truthy_json (Some (JObject kvs)) = True"

text \<open>
  \<open>v.key\<close> for a value that is not \<open>null\<close>, and a key that no prototype defines
  (the five keys read here): an own property of an object, \<open>undefined\<close> otherwise.
\<close>

fun property :: "json \<Rightarrow> string \<Rightarrow> json option" where
  "property (JObject kvs) key = map_of kvs key"
| "property _ key = None"

text \<open>\<open>o.key = v\<close> on the property list: an existing key keeps its place.\<close>

fun set_property :: "(string \<times> json) list \<Rightarrow> string \<Rightarrow> json \<Rightarrow> (string \<times> json) list" where
  "set_property [] key v = [(key, v)]"
| "set_property ((k, x) # kvs) key v =
     (if k = key then (k, v) # kvs else (k, x) # set_property kvs key v)"

text \<open>
  \<open>ToNumber\<close>, which \<open>Math.min\<close> applies to its arguments.  Two parts are the
  runtime's and stay parameters: the value of a string that consists of characters of
  numeric literals only (\<open>NaN\<close> when it is no literal), and the conversion of an array
  or object (through \<open>toString\<close>; it can throw).  A string with any other character,
  once trimmed, is not a numeric literal: its value is \<open>NaN\<close>.  The empty string is 0.
\<close>

record runtime =
  literal_value :: "string \<Rightarrow> number"
  object_ToNumber :: "json \<Rightarrow> error + number"

definition numeric_literal_chars :: "char list" where
  "numeric_literal_chars = ''0123456789+-.eEInfinityxXoObBabcdefABCDEF''"

definition StringToNumber :: "runtime \<Rightarrow> string \<Rightarrow> number" where
  "StringToNumber rt s =
     (let t = trim s in
      if t = [] then Finite 0
      else if list_ex (\<lambda>c. c \<notin> set numeric_literal_chars) t then NaN
      else literal_value rt t)"

fun ToNumber :: "runtime \<Rightarrow> json \<Rightarrow> error + number" where
  "ToNumber rt JNull = Inr (Finite 0)"
| "ToNumber rt (JBool b) = Inr (Finite (if b then 1 else 0))"
| "ToNumber rt (JNumber n) = Inr n"
| "ToNumber rt (JString s) = Inr (StringToNumber rt s)"
| "ToNumber rt (JArray xs) = object_ToNumber rt (JArray xs)"
| "ToNumber rt (JObject kvs) = object_ToNumber rt (JObject kvs)"

text \<open>
  \<open>typeof v !== "number" || v < 0 || v > 100\<close>
\<close>

fun invalid_confidence :: "json \<Rightarrow> bool" where
  "invalid_confidence (JNumber n) = (number_less n (Finite 0) \<or> number_less (Finite 100) n)"
| "invalid_confidence _ = True"

text \<open>
  \<open>Math.max(0, Math.min(100, v || 50))\<close>
\<close>

definition clamp_confidence :: "runtime \<Rightarrow> json \<Rightarrow> error + number" where
  "clamp_confidence rt v =
     (case (if truthy_json (Some v) then ToNumber rt v else Inr (Finite 50)) of
        Inl e \<Rightarrow> Inl e
      | Inr n \<Rightarrow> Inr (Math_max (Finite 0) (Math_min (Finite 100) n)))"

definition analyzeWithOpenAI_parsed :: "runtime \<Rightarrow> json \<Rightarrow> error + json" where
  "analyzeWithOpenAI_parsed rt analysis =
     (if analysis = JNull then Inl (OtherError ''TypeError'')
      else if \<not> truthy_json (property analysis ''engineer_summary'') \<or>
              \<not> truthy_json (property analysis ''job_fit_analysis'') \<or>
              \<not> truthy_json (property analysis ''hiring_recommendation'') \<or>
              \<not> truthy_json (property analysis ''recommendations'')
      then Inl (CustomError ''Invalid analysis response structure from OpenAI'' API_ERROR)
      else
        (case (analysis, property analysis ''hiring_recommendation'') of
           (JObject sections, Some (JObject hiring_recommendation)) \<Rightarrow>
             (case map_of hiring_recommendation ''confidence_percentage'' of
                None \<Rightarrow> Inr analysis
              | Some confidence_percentage \<Rightarrow>
                  if invalid_confidence confidence_percentage then
                    (case clamp_confidence rt confidence_percentage of
                       Inl e \<Rightarrow> Inl e
                     | Inr n \<Rightarrow>
                         Inr (JObject (set_property sections ''hiring_recommendation''
                                (JObject (set_property hiring_recommendation
                                            ''confidence_percentage'' (JNumber n))))))
                  else Inr analysis)
         | _ \<Rightarrow> Inr analysis))"

text \<open>The \<open>confidence_percentage\<close> a returned analysis carries.\<close>

definition confidence_of :: "json \<Rightarrow> json option" where
  "confidence_of analysis =
     (case property analysis ''hiring_recommendation'' of
        None \<Rightarrow> None
      | Some hr \<Rightarrow> property hr ''confidence_percentage'')"

section \<open>Example data\<close>

text \<open>
  A username pattern for the examples, after the npm package
  \<open>github-username-regex\<close> (not among the sources): one to 39 letters and digits
  with single hyphens between them, none first and none last.  Only the examples use
  it; the theorems hold for every pattern.
\<close>

definition isAlphaNumeric :: "char \<Rightarrow> bool" where
  "isAlphaNumeric c =
     (let n = (of_char c :: nat)
      in (48 \<le> n \<and> n \<le> 57) \<or> (65 \<le> n \<and> n \<le> 90) \<or> (97 \<le> n \<and> n \<le> 122))"

fun username_tail :: "string \<Rightarrow> bool" where
  "username_tail [] = True"
| "username_tail (c # cs) =
     (if c = CHR ''-'' then (case cs of [] \<Rightarrow> False | d # ds \<Rightarrow> isAlphaNumeric d \<and> username_tail cs)
      else isAlphaNumeric c \<and> username_tail cs)"

definition github_username_pattern :: "string \<Rightarrow> bool" where
  "github_username_pattern s =
     (case s of [] \<Rightarrow> False | c # cs \<Rightarrow> isAlphaNumeric c \<and> length cs \<le> 38 \<and> username_tail cs)"

text \<open>
  Collaborators for the examples: a \<open>parseBoolean\<close>, a cache duration, a message
  for \<open>MissingParamError\<close>, and an \<open>analyzeCandidate\<close> that fails as the scoring
  client does on a key that OpenAI rejects.
\<close>

definition example_collaborators :: "analyzeCandidate_fn collaborators" where
  "example_collaborators =
     \<lparr>githubUsernameRegex_test = github_username_pattern,
      parseBoolean = (\<lambda>v. if v = Some (QString ''true'') then Some True
                           else if v = Some (QString ''false'') then Some False else None),
      resolveCacheSeconds = (\<lambda>v. 86400),
      missingParamMessage = (\<lambda>ps. ''Missing params'' @ concat (map (\<lambda>p. '' '' @ p) ps)),
      analyzeCandidate = (\<lambda>u jobRole options. Inl (CustomError ''Invalid OpenAI API key'' API_ERROR))\<rparr>"

text \<open>The request of the test script: \<open>username=octocat&job_title=Engineer&required_skills=JS&seniority=mid&focus=frontend\<close>.\<close>

definition example_query :: "string \<Rightarrow> qval option" where
  "example_query =
     [''username'' \<mapsto> QString ''octocat'', ''job_title'' \<mapsto> QString ''Engineer'',
      ''required_skills'' \<mapsto> QString ''JS'', ''seniority'' \<mapsto> QString ''mid'',
      ''focus'' \<mapsto> QString ''frontend'']"

definition example_request :: "(string \<Rightarrow> qval option) \<Rightarrow> request" where
  "example_request q =
     \<lparr>query = q, headers = [''x-forwarded-for'' \<mapsto> ''203.0.113.7, 10.0.0.1''],
      socket_remoteAddress = None\<rparr>"

definition example_server :: "rate_limits \<Rightarrow> server" where
  "example_server m = \<lparr>rateLimitMap = m, OPENAI_API_KEY = Some ''sk-test'', now = 1000, now_retryAfter = 1002\<rparr>"

definition example_analysis :: "json \<Rightarrow> json" where
  "example_analysis confidence_percentage =
     JObject [(''engineer_summary'', JObject [(''primary_strengths'', JArray [JString ''testing''])]),
              (''job_fit_analysis'', JObject [(''overall_fit'', JString ''strong'')]),
              (''hiring_recommendation'',
                 JObject [(''decision'', JString ''Hire''),
                          (''confidence_level'', JString ''high''),
                          (''confidence_percentage'', confidence_percentage)]),
              (''recommendations'', JObject [(''interview_focus_areas'', JArray [])])]"

text \<open>A runtime for the examples: its two functions are not reached by them.\<close>

definition example_runtime :: runtime where
  "example_runtime = \<lparr>literal_value = (\<lambda>s. NaN), object_ToNumber = (\<lambda>v. Inl (OtherError ''TypeError''))\<rparr>"

definition example_stats :: Stats where
  "example_stats = \<lparr>totalCommits = 240, totalPRs = 12, totalPRsMerged = 9, totalReviews = 4,
                     totalIssues = 7, contributedTo = 5\<rparr>"

definition example_langs :: "Lang list" where
  "example_langs = [\<lparr>lang_name = ''JavaScript'', lang_size = 700\<rparr>,
                    \<lparr>lang_name = ''TypeScript'', lang_size = 300\<rparr>]"

definition example_reply :: "error + profile_reply" where
  "example_reply = Inr (ReplyUser (Some \<lparr>repositories_totalCount = 8, followers_totalCount = 3,
                                          createdAt = 1000\<rparr>))"

section \<open>Properties of the rate limiter\<close>

lemma checkRateLimit_in_window:
  assumes "m ident = Some r" and "t \<le> resetAt r"
  shows "checkRateLimit m t ident K W =
           (in_window_status r K 0,
            if count r < K then m(ident \<mapsto> r\<lparr>count := count r + 1\<rparr>) else m)"
  using assms by (simp add: checkRateLimit_def in_window_status_def)

lemma checkRateLimit_opens:
  assumes "opens_window m ident t"
  shows "checkRateLimit m t ident K W =
           (\<lparr>allowed = True, remaining = K - 1, status_resetAt = t + W\<rparr>,
            m(ident \<mapsto> \<lparr>count = 1, resetAt = t + W\<rparr>))"
  using assms by (auto simp: checkRateLimit_def opens_window_def split: option.splits)

lemma calls_in_window:
  assumes "m ident = Some r" and "\<forall>t\<in>set ts. t \<le> resetAt r" and "count r \<le> K"
  shows "checkRateLimit_calls m ident K W ts =
           (map (in_window_status r K) [0..<length ts],
            m(ident \<mapsto> r\<lparr>count := min K (count r + int (length ts))\<rparr>))"
  using assms
proof (induction ts arbitrary: m r)
  case Nil
  then show ?case by (simp add: fun_upd_idem)
next
  case (Cons t ts)
  have t: "t \<le> resetAt r" using Cons.prems by simp
  show ?case
  proof (cases "count r < K")
    case True
    let ?r = "r\<lparr>count := count r + 1\<rparr>"
    let ?m = "m(ident \<mapsto> ?r)"
    have step: "checkRateLimit m t ident K W = (in_window_status r K 0, ?m)"
      using checkRateLimit_in_window[of m ident r t K W] Cons.prems(1) t True by simp
    have ih: "checkRateLimit_calls ?m ident K W ts =
           (map (in_window_status ?r K) [0..<length ts],
            ?m(ident \<mapsto> ?r\<lparr>count := min K (count ?r + int (length ts))\<rparr>))"
      using Cons.prems True by (intro Cons.IH) auto
    have shift: "map (in_window_status ?r K) [0..<length ts] =
                 map (in_window_status r K) (map Suc [0..<length ts])"
      by (simp add: in_window_status_def add.assoc add.commute)
    have cnt: "count ?r + int (length ts) = count r + int (length (t # ts))"
      by simp
    have upd: "?m(ident \<mapsto> ?r\<lparr>count := min K (count ?r + int (length ts))\<rparr>) =
               m(ident \<mapsto> r\<lparr>count := min K (count r + int (length (t # ts)))\<rparr>)"
      unfolding cnt by simp
    have upt: "[0..<length (t # ts)] = 0 # map Suc [0..<length ts]"
      by (simp add: upt_conv_Cons map_Suc_upt del: upt_Suc)
    have "checkRateLimit_calls m ident K W (t # ts) =
            (in_window_status r K 0 # map (in_window_status r K) (map Suc [0..<length ts]),
             m(ident \<mapsto> r\<lparr>count := min K (count r + int (length (t # ts)))\<rparr>))"
      by (simp only: checkRateLimit_calls.simps step ih shift upd Let_def prod.case)
    then show ?thesis
      by (simp only: upt list.map)
  next
    case False
    then have eq: "count r = K" using Cons.prems by simp
    have step: "checkRateLimit m t ident K W = (in_window_status r K 0, m)"
      using checkRateLimit_in_window[of m ident r t K W] Cons.prems(1) t False by simp
    have ih: "checkRateLimit_calls m ident K W ts =
           (map (in_window_status r K) [0..<length ts],
            m(ident \<mapsto> r\<lparr>count := min K (count r + int (length ts))\<rparr>))"
      using Cons.prems by (intro Cons.IH) auto
    have shift: "map (in_window_status r K) [0..<length ts] =
                 map (in_window_status r K) (map Suc [0..<length ts])"
      using eq by (simp add: in_window_status_def)
    have upd: "m(ident \<mapsto> r\<lparr>count := min K (count r + int (length ts))\<rparr>) =
               m(ident \<mapsto> r\<lparr>count := min K (count r + int (length (t # ts)))\<rparr>)"
      using eq by (simp add: min_def)
    have upt: "[0..<length (t # ts)] = 0 # map Suc [0..<length ts]"
      by (simp add: upt_conv_Cons map_Suc_upt del: upt_Suc)
    have "checkRateLimit_calls m ident K W (t # ts) =
            (in_window_status r K 0 # map (in_window_status r K) (map Suc [0..<length ts]),
             m(ident \<mapsto> r\<lparr>count := min K (count r + int (length (t # ts)))\<rparr>))"
      by (simp only: checkRateLimit_calls.simps step ih shift upd Let_def prod.case)
    then show ?thesis
      by (simp only: upt list.map)
  qed
qed

lemma calls_from_opening:
  assumes "opens_window m ident t0" and "\<forall>t\<in>set ts. t \<le> t0 + W" and "1 \<le> K"
  shows "checkRateLimit_calls m ident K W (t0 # ts) =
           (\<lparr>allowed = True, remaining = K - 1, status_resetAt = t0 + W\<rparr> #
              map (in_window_status \<lparr>count = 1, resetAt = t0 + W\<rparr> K) [0..<length ts],
            m(ident \<mapsto> \<lparr>count = min K (1 + int (length ts)), resetAt = t0 + W\<rparr>))"
proof -
  let ?r = "\<lparr>count = 1, resetAt = t0 + W\<rparr>"
  let ?m = "m(ident \<mapsto> ?r)"
  have "checkRateLimit_calls ?m ident K W ts =
          (map (in_window_status ?r K) [0..<length ts],
           ?m(ident \<mapsto> ?r\<lparr>count := min K (count ?r + int (length ts))\<rparr>))"
    using assms by (intro calls_in_window) auto
  then show ?thesis
    by (simp add: checkRateLimit_opens[OF assms(1)])
qed


text \<open>
  C2.  With \<open>maxRequests = 10\<close> and \<open>windowMs = 60000\<close> and one identifier: a
  call at \<open>t0\<close> opens a window (the identifier is new, or its window has expired),
  and ten more calls follow at times that are not after \<open>t0 + 60000\<close>.  Each of the
  first ten calls is allowed (call \<open>i\<close>, from 0, with \<open>remaining = 9 - i\<close>); the
  eleventh is denied with \<open>remaining = 0\<close>, and the map after it is the map after the
  tenth call, whose record holds \<open>count = 10\<close>.  Whatever the map, a call strictly after
  the stored \<open>resetAt\<close> is allowed and stores \<open>count = 1\<close> and
  \<open>resetAt = now + windowMs\<close>.
\<close>

theorem checkRateLimit_ten_per_window:
  assumes "opens_window m ident t0"
    and "length ts = 10"
    and "\<forall>t\<in>set ts. t \<le> t0 + 60000"
  shows "(\<forall>i<10. allowed (fst (checkRateLimit_calls m ident 10 60000 (t0 # ts)) ! i) \<and>
                 remaining (fst (checkRateLimit_calls m ident 10 60000 (t0 # ts)) ! i) = 9 - int i) \<and>
         \<not> allowed (fst (checkRateLimit_calls m ident 10 60000 (t0 # ts)) ! 10) \<and>
         remaining (fst (checkRateLimit_calls m ident 10 60000 (t0 # ts)) ! 10) = 0 \<and>
         snd (checkRateLimit_calls m ident 10 60000 (t0 # butlast ts)) ident =
           Some \<lparr>count = 10, resetAt = t0 + 60000\<rparr> \<and>
         snd (checkRateLimit_calls m ident 10 60000 (t0 # ts)) =
           snd (checkRateLimit_calls m ident 10 60000 (t0 # butlast ts)) \<and>
         (\<forall>m2 r t. m2 ident = Some r \<and> t > resetAt r \<longrightarrow>
            checkRateLimit m2 t ident 10 60000 =
              (\<lparr>allowed = True, remaining = 9, status_resetAt = t + 60000\<rparr>,
               m2(ident \<mapsto> \<lparr>count = 1, resetAt = t + 60000\<rparr>)))"
proof -
  let ?r = "\<lparr>count = 1, resetAt = t0 + 60000\<rparr>"
  have all: "checkRateLimit_calls m ident 10 60000 (t0 # ts) =
           (\<lparr>allowed = True, remaining = 9, status_resetAt = t0 + 60000\<rparr> #
              map (in_window_status ?r 10) [0..<10],
            m(ident \<mapsto> \<lparr>count = 10, resetAt = t0 + 60000\<rparr>))"
    using calls_from_opening[OF assms(1) assms(3), of 10] assms(2) by simp
  have "\<forall>t\<in>set (butlast ts). t \<le> t0 + 60000"
    using assms(3) by (meson in_set_butlastD)
  then have ten: "checkRateLimit_calls m ident 10 60000 (t0 # butlast ts) =
           (\<lparr>allowed = True, remaining = 9, status_resetAt = t0 + 60000\<rparr> #
              map (in_window_status ?r 10) [0..<9],
            m(ident \<mapsto> \<lparr>count = 10, resetAt = t0 + 60000\<rparr>))"
    using calls_from_opening[OF assms(1), of "butlast ts" 60000 10] assms(2) by simp
  have first: "allowed (fst (checkRateLimit_calls m ident 10 60000 (t0 # ts)) ! i) \<and>
               remaining (fst (checkRateLimit_calls m ident 10 60000 (t0 # ts)) ! i) = 9 - int i"
    if "i < 10" for i
  proof (cases i)
    case 0
    then show ?thesis unfolding all by simp
  next
    case (Suc j)
    then have "j < 9" using that by simp
    then show ?thesis
      unfolding all Suc by (simp add: in_window_status_def del: upt_Suc)
  qed
  have eleventh: "fst (checkRateLimit_calls m ident 10 60000 (t0 # ts)) ! 10 =
                  \<lparr>allowed = False, remaining = 0, status_resetAt = t0 + 60000\<rparr>"
    unfolding all by (simp add: in_window_status_def del: upt_Suc)
  have rollover: "checkRateLimit m2 t ident 10 60000 =
              (\<lparr>allowed = True, remaining = 9, status_resetAt = t + 60000\<rparr>,
               m2(ident \<mapsto> \<lparr>count = 1, resetAt = t + 60000\<rparr>))"
    if "m2 ident = Some r" and "t > resetAt r" for m2 r t
    using that by (simp add: checkRateLimit_def)
  have store: "snd (checkRateLimit_calls m ident 10 60000 (t0 # ts)) =
               snd (checkRateLimit_calls m ident 10 60000 (t0 # butlast ts))"
    unfolding all ten by simp
  have stored: "snd (checkRateLimit_calls m ident 10 60000 (t0 # butlast ts)) ident =
                Some \<lparr>count = 10, resetAt = t0 + 60000\<rparr>"
    unfolding ten by simp
  show ?thesis
    using first eleventh rollover store stored by simp
qed


theorem checkRateLimit_ten_per_window_witness:
  "opens_window Map.empty ''203.0.113.7'' 1000 \<and>
   length [1001, 1002, 1003, 1004, 1005, 1006, 1007, 1008, 1009, 61000 :: int] = 10 \<and>
   list_all (\<lambda>t. t \<le> 1000 + 60000) [1001, 1002, 1003, 1004, 1005, 1006, 1007, 1008, 1009, 61000 :: int] \<and>
   allowed (fst (checkRateLimit_calls Map.empty ''203.0.113.7'' 10 60000
      (1000 # [1001, 1002, 1003, 1004, 1005, 1006, 1007, 1008, 1009, 61000])) ! 9) \<and>
   \<not> allowed (fst (checkRateLimit_calls Map.empty ''203.0.113.7'' 10 60000
      (1000 # [1001, 1002, 1003, 1004, 1005, 1006, 1007, 1008, 1009, 61000])) ! 10) \<and>
   checkRateLimit [''203.0.113.7'' \<mapsto> \<lparr>count = 10, resetAt = 61000\<rparr>] 61001 ''203.0.113.7'' 10 60000 =
     (\<lparr>allowed = True, remaining = 9, status_resetAt = 121001\<rparr>,
      [''203.0.113.7'' \<mapsto> \<lparr>count = 1, resetAt = 121001\<rparr>])"
proof -
  let ?ts = "[1001, 1002, 1003, 1004, 1005, 1006, 1007, 1008, 1009, 61000 :: int]"
  have h1: "opens_window Map.empty ''203.0.113.7'' 1000"
    by (simp add: opens_window_def)
  have h2: "length ?ts = 10" by simp
  have h3: "\<forall>t\<in>set ?ts. t \<le> 1000 + 60000" by simp
  note window = checkRateLimit_ten_per_window [OF h1 h2 h3]
  have tenth: "allowed (fst (checkRateLimit_calls Map.empty ''203.0.113.7'' 10 60000 (1000 # ?ts)) ! 9)"
    using window [THEN conjunct1, rule_format, of 9] by simp
  have eleventh: "\<not> allowed (fst (checkRateLimit_calls Map.empty ''203.0.113.7'' 10 60000 (1000 # ?ts)) ! 10)"
    using window [THEN conjunct2, THEN conjunct1] .
  have rollover: "checkRateLimit [''203.0.113.7'' \<mapsto> \<lparr>count = 10, resetAt = 61000\<rparr>] 61001 ''203.0.113.7'' 10 60000 =
     (\<lparr>allowed = True, remaining = 9, status_resetAt = 121001\<rparr>,
      [''203.0.113.7'' \<mapsto> \<lparr>count = 1, resetAt = 121001\<rparr>])"
    using window [THEN conjunct2, THEN conjunct2, THEN conjunct2, THEN conjunct2, THEN conjunct2,
                  rule_format, of "[''203.0.113.7'' \<mapsto> \<lparr>count = 10, resetAt = 61000\<rparr>]"
                    "\<lparr>count = 10, resetAt = 61000\<rparr>" 61001]
    by simp
  show ?thesis
    using h1 tenth eleventh rollover by simp
qed


text \<open>
  C3, as stated, fails for a limit below 1: the call that opens a window is admitted
  without a look at \<open>maxRequests\<close>, so with \<open>maxRequests = 0\<close> one call of one is
  admitted, and \<open>min 1 0 = 0\<close>.
\<close>

theorem checkRateLimit_zero_limit_admits_one:
  "int (length (filter allowed (fst (checkRateLimit_calls Map.empty ''203.0.113.7'' 0 60000 [1000])))) = 1 \<and>
   min (int (length [1000 :: int])) 0 = 0"
  by (simp add: checkRateLimit_def)

text \<open>
  C3, amended.  For a limit \<open>K\<close> of at least 1: of \<open>N\<close> calls for one identifier
  in one window (the first opens it, the others come in any order with clock readings
  that are not after its \<open>resetAt\<close>), exactly \<open>min N K\<close> are admitted and the others
  are denied.  Each call is one step: the synchronous function has no point at which
  another call could run.
\<close>

theorem checkRateLimit_admits_min:
  assumes "1 \<le> K"
    and "opens_window m ident t0"
    and "\<forall>t\<in>set ts. t \<le> t0 + W"
  shows "int (length (filter allowed (fst (checkRateLimit_calls m ident K W (t0 # ts))))) =
           min (int (length (t0 # ts))) K"
proof -
  let ?r = "\<lparr>count = 1, resetAt = t0 + W\<rparr>"
  have flt: "filter allowed (map (in_window_status ?r K) [0..<n]) =
             map (in_window_status ?r K) [0..<min n (nat (K - 1))]" for n
  proof (induction n)
    case 0
    then show ?case by simp
  next
    case (Suc n)
    show ?case
    proof (cases "int n < K - 1")
      case True
      then have "min (Suc n) (nat (K - 1)) = Suc (min n (nat (K - 1)))" by linarith
      then show ?thesis using True Suc by (simp add: in_window_status_def)
    next
      case False
      then have "min (Suc n) (nat (K - 1)) = min n (nat (K - 1))" by linarith
      then show ?thesis using False Suc by (simp add: in_window_status_def)
    qed
  qed
  show ?thesis
    unfolding calls_from_opening[OF assms(2,3,1)]
    using assms(1) by (simp add: flt del: upt_Suc)
qed

theorem checkRateLimit_admits_min_witness:
  "(1::int) \<le> 3 \<and> opens_window Map.empty ''203.0.113.7'' 1000 \<and>
   list_all (\<lambda>t. t \<le> 1000 + 500) [1200, 1100, 1500, 1000 :: int] \<and>
   int (length (filter allowed (fst (checkRateLimit_calls Map.empty ''203.0.113.7'' 3 500
      (1000 # [1200, 1100, 1500, 1000]))))) = 3"
proof -
  have h1: "opens_window Map.empty ''203.0.113.7'' 1000"
    by (simp add: opens_window_def)
  have h2: "\<forall>t\<in>set [1200, 1100, 1500, 1000 :: int]. t \<le> 1000 + 500" by simp
  have "int (length (filter allowed (fst (checkRateLimit_calls Map.empty ''203.0.113.7'' 3 500
      (1000 # [1200, 1100, 1500, 1000]))))) = min (int (length (1000 # [1200, 1100, 1500, 1000 :: int]))) 3"
    using checkRateLimit_admits_min [of 3, OF _ h1 h2] by simp
  then show ?thesis
    using h1 by simp
qed

section \<open>Properties of the validators and of the handler\<close>

lemma split_acc_not_Nil: "split_acc sep acc s \<noteq> []"
  by (induction s arbitrary: acc) auto

lemma validateStringInput_not_Missing:
  "validateStringInput v fieldName n \<noteq> Inl (MissingParamError ps)"
  by (simp add: validateStringInput_def Let_def split: option.splits qval.splits)

lemma each_skill_not_Missing:
  "each_skill fieldName skills \<noteq> Some (MissingParamError ps)"
  by (induction skills) simp_all

lemma validateSkills_not_Missing:
  "validateSkills v fieldName required \<noteq> Inl (MissingParamError ps)"
  using each_skill_not_Missing [of fieldName _ ps]
  by (simp add: validateSkills_def Let_def split: option.splits qval.splits) blast

lemma lowered_not_Missing: "lowered v \<noteq> Inl (MissingParamError ps)"
  by (simp add: lowered_def split: option.splits qval.splits)

lemma parseJobRole_Missing_iff:
  "(parseJobRole q = Inl (MissingParamError ps)) =
     (ps = [''job_title'', ''required_skills'', ''seniority'', ''focus''] \<and>
      (truthy_q (q ''job_title'') \<and> truthy_q (q ''required_skills'') \<and>
       truthy_q (q ''seniority'') \<and> truthy_q (q ''focus'')) = False)"
proof (cases "truthy_q (q ''job_title'') \<and> truthy_q (q ''required_skills'') \<and>
              truthy_q (q ''seniority'') \<and> truthy_q (q ''focus'')")
  case False
  then show ?thesis by (auto simp: parseJobRole_def)
next
  case True
  have "parseJobRole q \<noteq> Inl (MissingParamError ps)"
    using True validateStringInput_not_Missing [of "q ''job_title''" "''job_title''" 100 ps]
      validateSkills_not_Missing [of "q ''required_skills''" "''required_skills''" True ps]
      validateSkills_not_Missing [of "q ''nice_to_have_skills''" "''nice_to_have_skills''" False ps]
      lowered_not_Missing [of "q ''seniority''" ps] lowered_not_Missing [of "q ''focus''" ps]
    by (simp add: parseJobRole_def Let_def split: sum.splits) blast
  then show ?thesis using True by simp
qed

lemma example_client: "getClientIdentifier (example_request q) = ''203.0.113.7''"
  by (simp add: getClientIdentifier_def example_request_def split_def trim_def isWhiteSpace_def)

lemma example_octocat:
  "validateUsername github_username_pattern (Some (QString ''octocat'')) = Inr ''octocat''"
  by (simp add: validateUsername_def trim_def isWhiteSpace_def github_username_pattern_def
        isAlphaNumeric_def)

text \<open>
  C1.  The claim is that every field-level validation failure is answered with HTTP
  400.  The handler answers 400 from its \<open>catch\<close> block only for a
  \<open>MissingParamError\<close>, which \<open>parseJobRole\<close> throws only when one of the four
  required parameters is absent or empty.  Every other failure of \<open>parseJobRole\<close>
  (a job title of white space or of more than 100 characters, no skill left, more than
  50 skills, a skill of more than 50 characters, a seniority or focus outside its
  enumeration) is a \<open>CustomError\<close>, and the answer is HTTP 500 with that error's
  message, after \<open>setErrorCacheHeaders\<close> and with no call of \<open>analyzeCandidate\<close>.
  The test script expects 400 for \<open>seniority=invalid\<close>.
\<close>

theorem handler_field_validation_status:
  assumes "allowed (fst (checkRateLimit (rateLimitMap srv) (now srv) (getClientIdentifier req) 10 60000))"
    and "validateUsername (githubUsernameRegex_test c) (query req ''username'') = Inr u"
    and "truthy_s (OPENAI_API_KEY srv)"
    and "truthy_q (query req ''job_title'') \<and> truthy_q (query req ''required_skills'') \<and>
         truthy_q (query req ''seniority'') \<and> truthy_q (query req ''focus'')"
    and "parseJobRole (query req) = Inl e"
  shows "status (res (handler c srv req)) = 500 \<and>
         cache_calls (res (handler c srv req)) = [SetErrorCacheHeaders] \<and>
         analyzeCandidate_calls (handler c srv req) = [] \<and>
         (\<forall>message t. e = CustomError message t \<longrightarrow>
            body (res (handler c srv req)) = ErrorBody message)"
proof -
  obtain rateLimit limits where
    rl: "checkRateLimit (rateLimitMap srv) (now srv) (getClientIdentifier req) 10 60000 = (rateLimit, limits)"
    by (cases "checkRateLimit (rateLimitMap srv) (now srv) (getClientIdentifier req) 10 60000")
  then have al: "allowed rateLimit" using assms(1) by simp
  have "parseJobRole (query req) \<noteq> Inl (MissingParamError ps)" for ps
    using assms(4) by (simp add: parseJobRole_Missing_iff)
  then have nm: "e \<noteq> MissingParamError ps" for ps
    using assms(5) by auto
  show ?thesis
  proof (cases e)
    case (MissingParamError ps)
    then show ?thesis using nm by simp
  next
    case (CustomError message t)
    then show ?thesis
      using al assms(2,3,5) by (simp add: rl handler_def Let_def catch_block_def)
  next
    case (OtherError x)
    then show ?thesis
      using al assms(2,3,5) by (simp add: rl handler_def Let_def catch_block_def)
  qed
qed

text \<open>The fourth test of the test script, \<open>seniority=invalid\<close>: the status is 500.\<close>

theorem handler_field_validation_status_witness:
  "allowed (fst (checkRateLimit Map.empty 1000 ''203.0.113.7'' 10 60000)) \<and>
   validateUsername github_username_pattern (Some (QString ''octocat'')) = Inr ''octocat'' \<and>
   parseJobRole (example_query(''seniority'' \<mapsto> QString ''invalid'')) =
     Inl (CustomError ''Invalid seniority. Must be one of: junior, mid, senior'' MISSING_PARAMETER) \<and>
   status (res (handler example_collaborators (example_server Map.empty)
      (example_request (example_query(''seniority'' \<mapsto> QString ''invalid''))))) = 500"
proof -
  let ?req = "example_request (example_query(''seniority'' \<mapsto> QString ''invalid''))"
  let ?srv = "example_server Map.empty"
  have a: "allowed (fst (checkRateLimit Map.empty 1000 ''203.0.113.7'' 10 60000))"
    by (simp add: checkRateLimit_def)
  have p: "parseJobRole (example_query(''seniority'' \<mapsto> QString ''invalid'')) =
     Inl (CustomError ''Invalid seniority. Must be one of: junior, mid, senior'' MISSING_PARAMETER)"
    by (simp add: parseJobRole_def example_query_def validateStringInput_def
          validateSkills_def lowered_def toLowerCase_def toLowerCase_char_def trim_def isWhiteSpace_def
          split_def Let_def)
  have h1: "allowed (fst (checkRateLimit (rateLimitMap ?srv) (now ?srv) (getClientIdentifier ?req) 10 60000))"
    using a by (simp add: example_server_def example_client)
  have h2: "validateUsername (githubUsernameRegex_test example_collaborators) (query ?req ''username'') =
              Inr ''octocat''"
    by (simp add: example_octocat example_collaborators_def example_request_def example_query_def)
  have h3: "truthy_s (OPENAI_API_KEY ?srv)"
    by (simp add: example_server_def)
  have h4: "truthy_q (query ?req ''job_title'') \<and> truthy_q (query ?req ''required_skills'') \<and>
            truthy_q (query ?req ''seniority'') \<and> truthy_q (query ?req ''focus'')"
    by (simp add: example_request_def example_query_def)
  have h5: "parseJobRole (query ?req) =
     Inl (CustomError ''Invalid seniority. Must be one of: junior, mid, senior'' MISSING_PARAMETER)"
    using p by (simp add: example_request_def)
  have st: "status (res (handler example_collaborators ?srv ?req)) = 500"
    using handler_field_validation_status [OF h1 h2 h3 h4 h5] by (rule conjunct1)
  from a example_octocat p st show ?thesis
    by (intro conjI)
qed

text \<open>
  C4, as stated, fails on the early returns: a request without \<open>username\<close> is
  answered 400 with the rate-limit triplet and with no cache-header call of either
  kind.
\<close>

theorem handler_early_return_no_cache_headers:
  "status (res (handler example_collaborators (example_server Map.empty)
      (example_request (example_query(''username'' := None))))) = 400 \<and>
   cache_calls (res (handler example_collaborators (example_server Map.empty)
      (example_request (example_query(''username'' := None))))) = []"
  by (simp add: handler_def example_client checkRateLimit_def example_server_def
        validateUsername_def example_request_def)

text \<open>
  C4, amended.  Every response path sets \<open>Content-Type\<close> and exactly one
  \<open>X-RateLimit-Limit\<close>, \<open>X-RateLimit-Remaining\<close>, \<open>X-RateLimit-Reset\<close>
  triplet.  The paths that reach the \<open>try\<close> block (the limiter admits the request,
  the username is valid, the key is set) make exactly one cache-header call:
  \<open>setCacheHeaders\<close> on success, \<open>setErrorCacheHeaders\<close> in the \<open>catch\<close> block.
  The three early returns (429, the username's 400, the missing key's 500) make none.
\<close>

theorem handler_header_calls:
  "map fst (setHeader_calls (res (handler c srv req))) =
     [''Content-Type'', ''X-RateLimit-Limit'', ''X-RateLimit-Remaining'', ''X-RateLimit-Reset''] \<and>
   cache_calls (res (handler c srv req)) =
     (if allowed (fst (checkRateLimit (rateLimitMap srv) (now srv) (getClientIdentifier req) 10 60000)) \<and>
         isl (validateUsername (githubUsernameRegex_test c) (query req ''username'')) = False \<and>
         truthy_s (OPENAI_API_KEY srv)
      then (if status (res (handler c srv req)) = 200
            then [SetCacheHeaders (resolveCacheSeconds c (query req ''cache_seconds''))]
            else [SetErrorCacheHeaders])
      else [])"
proof -
  obtain rateLimit limits where
    rl: "checkRateLimit (rateLimitMap srv) (now srv) (getClientIdentifier req) 10 60000 = (rateLimit, limits)"
    by (cases "checkRateLimit (rateLimitMap srv) (now srv) (getClientIdentifier req) 10 60000")
  show ?thesis
    by (simp add: rl handler_def Let_def catch_block_def split: sum.splits error.splits)
qed

text \<open>The eleventh request of a window: status 429, the triplet, no cache-header call.\<close>

theorem handler_header_calls_witness:
  "status (res (handler example_collaborators
      (example_server [''203.0.113.7'' \<mapsto> \<lparr>count = 10, resetAt = 2500\<rparr>])
      (example_request example_query))) = 429 \<and>
   map fst (setHeader_calls (res (handler example_collaborators
      (example_server [''203.0.113.7'' \<mapsto> \<lparr>count = 10, resetAt = 2500\<rparr>])
      (example_request example_query)))) =
     [''Content-Type'', ''X-RateLimit-Limit'', ''X-RateLimit-Remaining'', ''X-RateLimit-Reset''] \<and>
   cache_calls (res (handler example_collaborators
      (example_server [''203.0.113.7'' \<mapsto> \<lparr>count = 10, resetAt = 2500\<rparr>])
      (example_request example_query))) = []"
proof -
  let ?srv = "example_server [''203.0.113.7'' \<mapsto> \<lparr>count = 10, resetAt = 2500\<rparr>]"
  let ?req = "example_request example_query"
  have denied: "\<not> allowed (fst (checkRateLimit (rateLimitMap ?srv) (now ?srv) (getClientIdentifier ?req) 10 60000))"
    by (simp add: checkRateLimit_def example_server_def example_client)
  have s: "status (res (handler example_collaborators ?srv ?req)) = 429"
    by (simp add: handler_def example_client checkRateLimit_def example_server_def)
  note calls = handler_header_calls [of example_collaborators ?srv ?req]
  have h: "map fst (setHeader_calls (res (handler example_collaborators ?srv ?req))) =
     [''Content-Type'', ''X-RateLimit-Limit'', ''X-RateLimit-Remaining'', ''X-RateLimit-Reset'']"
    using calls by (rule conjunct1)
  have c: "cache_calls (res (handler example_collaborators ?srv ?req)) = []"
    using calls [THEN conjunct2] denied by simp
  from s h c show ?thesis
    by (intro conjI)
qed

text \<open>
  C8, as stated, fails for a request that the limiter denies: the limiter runs before
  the username is looked at, and the answer is 429.
\<close>

theorem handler_long_username_rate_limited:
  "length (trim ''aaaaaaaaaaaaaaaaaaaaaaaaaaaaaaaaaaaaaaaa'') = 40 \<and>
   status (res (handler example_collaborators
      (example_server [''203.0.113.7'' \<mapsto> \<lparr>count = 10, resetAt = 2500\<rparr>])
      (example_request (example_query(''username'' \<mapsto> QString ''aaaaaaaaaaaaaaaaaaaaaaaaaaaaaaaaaaaaaaaa''))))) = 429"
  by (simp add: handler_def example_client checkRateLimit_def example_server_def trim_def isWhiteSpace_def)

text \<open>
  C8, amended.  For every username parameter whose trimmed length exceeds 39:
  \<open>validateUsername\<close> throws its \<open>CustomError\<close>; when the limiter admits the
  request the handler answers HTTP 400 with that message, and otherwise 429; in both
  cases \<open>analyzeCandidate\<close> (the GitHub aggregation and the scoring) is not called.
\<close>

theorem handler_long_username:
  assumes "query req ''username'' = Some (QString s)" and "length (trim s) > 39"
  shows "validateUsername (githubUsernameRegex_test c) (query req ''username'') =
           Inl (CustomError ''Username must be 39 characters or less'' MISSING_PARAMETER) \<and>
         analyzeCandidate_calls (handler c srv req) = [] \<and>
         (if allowed (fst (checkRateLimit (rateLimitMap srv) (now srv) (getClientIdentifier req) 10 60000))
          then status (res (handler c srv req)) = 400 \<and>
               body (res (handler c srv req)) = ErrorBody ''Username must be 39 characters or less''
          else status (res (handler c srv req)) = 429)"
proof -
  have t: "trim s \<noteq> []" using assms(2) by auto
  then have s: "s \<noteq> []" by (auto simp: trim_def)
  have v: "validateUsername (githubUsernameRegex_test c) (query req ''username'') =
           Inl (CustomError ''Username must be 39 characters or less'' MISSING_PARAMETER)"
    using assms s t by (simp add: validateUsername_def Let_def)
  obtain rateLimit limits where
    rl: "checkRateLimit (rateLimitMap srv) (now srv) (getClientIdentifier req) 10 60000 = (rateLimit, limits)"
    by (cases "checkRateLimit (rateLimitMap srv) (now srv) (getClientIdentifier req) 10 60000")
  show ?thesis
    by (simp add: v rl handler_def Let_def)
qed

theorem handler_long_username_witness:
  "query (example_request (example_query(''username'' \<mapsto> QString ''aaaaaaaaaaaaaaaaaaaaaaaaaaaaaaaaaaaaaaaa'')))
      ''username'' = Some (QString ''aaaaaaaaaaaaaaaaaaaaaaaaaaaaaaaaaaaaaaaa'') \<and>
   length (trim ''aaaaaaaaaaaaaaaaaaaaaaaaaaaaaaaaaaaaaaaa'') > 39 \<and>
   status (res (handler example_collaborators (example_server Map.empty)
      (example_request (example_query(''username'' \<mapsto> QString ''aaaaaaaaaaaaaaaaaaaaaaaaaaaaaaaaaaaaaaaa''))))) = 400 \<and>
   analyzeCandidate_calls (handler example_collaborators (example_server Map.empty)
      (example_request (example_query(''username'' \<mapsto> QString ''aaaaaaaaaaaaaaaaaaaaaaaaaaaaaaaaaaaaaaaa'')))) = []"
proof -
  let ?s = "''aaaaaaaaaaaaaaaaaaaaaaaaaaaaaaaaaaaaaaaa''"
  let ?req = "example_request (example_query(''username'' \<mapsto> QString ?s))"
  have h1: "query ?req ''username'' = Some (QString ?s)"
    by (simp add: example_request_def)
  have h2: "length (trim ?s) > 39"
    by (simp add: trim_def isWhiteSpace_def)
  have a: "allowed (fst (checkRateLimit (rateLimitMap (example_server Map.empty))
             (now (example_server Map.empty)) (getClientIdentifier ?req) 10 60000))"
    by (simp add: checkRateLimit_def example_server_def example_client)
  note long = handler_long_username [OF h1 h2, of example_collaborators "example_server Map.empty"]
  have calls: "analyzeCandidate_calls (handler example_collaborators (example_server Map.empty) ?req) = []"
    using long by simp
  have st: "status (res (handler example_collaborators (example_server Map.empty) ?req)) = 400"
    using long a by simp
  from h1 h2 st calls show ?thesis
    by (intro conjI)
qed

text \<open>
  The handler with the limiter reads the key from the environment only: an
  \<open>openai_api_key\<close> query parameter, added, changed or removed, changes nothing.
\<close>

lemma parseJobRole_ignores_openai_api_key:
  "parseJobRole (q(''openai_api_key'' := v)) = parseJobRole q"
  by (simp add: parseJobRole_def)

lemma handler_ignores_openai_api_key:
  "handler c srv (req\<lparr>query := (query req)(''openai_api_key'' := v)\<rparr>) = handler c srv req"
proof -
  have id: "getClientIdentifier (req\<lparr>query := (query req)(''openai_api_key'' := v)\<rparr>) =
            getClientIdentifier req"
    by (simp add: getClientIdentifier_def Let_def cong: if_cong)
  obtain rateLimit limits where
    rl: "checkRateLimit (rateLimitMap srv) (now srv) (getClientIdentifier req) 10 60000 = (rateLimit, limits)"
    by (cases "checkRateLimit (rateLimitMap srv) (now srv) (getClientIdentifier req) 10 60000")
  show ?thesis
    by (simp add: handler_def id rl Let_def parseJobRole_ignores_openai_api_key
             cong: sum.case_cong if_cong)
qed

section \<open>Properties of the handler of api/analyze.js\<close>

text \<open>
  C5.  The claim is that the endpoint never accepts the key as a query parameter, as
  the parameter documentation says (query parameter support has been removed).  The
  handler of \<open>api/analyze.js\<close> takes \<open>openai_api_key || process.env.OPENAI_API_KEY\<close>:
  with no key in the environment the example request is answered 400, and the same
  request with \<open>openai_api_key=sk-from-query\<close> reaches \<open>analyzeCandidate\<close> with the
  key of the query, and a cache-header call is made.
\<close>

theorem analyze_js_handler_accepts_query_key:
  "fst (analyze_js_handler c None (example_request example_query)) =
     \<lparr>setHeader_calls = [(''Content-Type'', Text ''application/json'')], cache_calls = [], status = 400,
      body = ErrorBody ''OpenAI API key is required. Provide 'openai_api_key' query parameter or set OPENAI_API_KEY environment variable.''\<rparr> \<and>
   snd (analyze_js_handler c None
          (example_request (example_query(''openai_api_key'' \<mapsto> QString ''sk-from-query'')))) =
     [(QString ''octocat'',
       \<lparr>raw_title = QString ''Engineer'', raw_required_skills = [''JS''],
        raw_nice_to_have_skills = [], raw_seniority = ''mid'', raw_focus = ''frontend''\<rparr>,
       \<lparr>raw_include_all_commits = parseBoolean c None,
        raw_openai_api_key = QString ''sk-from-query'', raw_model = QString ''gpt-4o''\<rparr>)] \<and>
   cache_calls (fst (analyze_js_handler c None
          (example_request (example_query(''openai_api_key'' \<mapsto> QString ''sk-from-query''))))) \<noteq>
   cache_calls (fst (analyze_js_handler c None (example_request example_query)))"
proof -
  have job: "analyze_js_parseJobRole (example_query(''openai_api_key'' \<mapsto> QString ''sk-from-query'')) =
     Inr \<lparr>raw_title = QString ''Engineer'', raw_required_skills = [''JS''],
          raw_nice_to_have_skills = [], raw_seniority = ''mid'', raw_focus = ''frontend''\<rparr>"
    by (simp add: analyze_js_parseJobRole_def example_query_def lowered_def toLowerCase_def
          toLowerCase_char_def split_skills_def split_def trim_def isWhiteSpace_def Let_def)
  have without: "analyze_js_handler c None (example_request example_query) =
     (\<lparr>setHeader_calls = [(''Content-Type'', Text ''application/json'')], cache_calls = [], status = 400,
      body = ErrorBody ''OpenAI API key is required. Provide 'openai_api_key' query parameter or set OPENAI_API_KEY environment variable.''\<rparr>, [])"
    by (simp add: analyze_js_handler_def example_request_def example_query_def Let_def)
  have calls: "snd (analyze_js_handler c None
          (example_request (example_query(''openai_api_key'' \<mapsto> QString ''sk-from-query'')))) =
     [(QString ''octocat'',
       \<lparr>raw_title = QString ''Engineer'', raw_required_skills = [''JS''],
        raw_nice_to_have_skills = [], raw_seniority = ''mid'', raw_focus = ''frontend''\<rparr>,
       \<lparr>raw_include_all_commits = parseBoolean c None,
        raw_openai_api_key = QString ''sk-from-query'', raw_model = QString ''gpt-4o''\<rparr>)]"
    by (simp add: analyze_js_handler_def example_request_def job Let_def split: sum.splits)
       (simp add: example_query_def)
  have cache: "cache_calls (fst (analyze_js_handler c None
          (example_request (example_query(''openai_api_key'' \<mapsto> QString ''sk-from-query''))))) \<noteq> []"
    by (simp add: analyze_js_handler_def example_request_def job Let_def catch_block_def
          split: sum.splits error.splits)
       (simp add: example_query_def)
  show ?thesis
    using calls cache by (simp add: without)
qed

section \<open>Properties of the data aggregator\<close>

text \<open>
  C6.  \<open>aggregateGitHubData\<close> fails only when one of the three fetches fails;
  whatever it returns has an empty \<open>top_repositories\<close>, \<open>readme_quality = "poor"\<close>,
  \<open>documentation_signal = "low"\<close> and \<open>team_projects_ratio = 0\<close>.
\<close>

theorem aggregateGitHubData_placeholders:
  "(case aggregateGitHubData u fetchStats_result fetchTopLanguages_result retryer_result t of
      Inl e \<Rightarrow> isl fetchStats_result \<or> isl fetchTopLanguages_result \<or>
               isl (fetchUserProfile retryer_result t)
    | Inr out \<Rightarrow>
        top_repositories (github_stats out) = [] \<and>
        readme_quality (github_stats out) = ''poor'' \<and>
        documentation_signal (github_stats out) = ''low'' \<and>
        team_projects_ratio (collaboration_signals (github_stats out)) = 0)"
  by (simp add: aggregateGitHubData_def assessReadmeQuality_def assessDocumentationSignal_def
        calculateCollaborationSignals_def Let_def split: sum.splits)

lemma example_aggregate:
  "isl (aggregateGitHubData ''octocat'' (Inr example_stats) (Inr example_langs) example_reply 5000) = False"
  by (simp add: aggregateGitHubData_def fetchUserProfile_def example_reply_def Let_def)

theorem aggregateGitHubData_placeholders_witness:
  "isl (aggregateGitHubData ''octocat'' (Inr example_stats) (Inr example_langs) example_reply 5000) = False \<and>
   readme_quality (github_stats (projr
     (aggregateGitHubData ''octocat'' (Inr example_stats) (Inr example_langs) example_reply 5000))) = ''poor'' \<and>
   documentation_signal (github_stats (projr
     (aggregateGitHubData ''octocat'' (Inr example_stats) (Inr example_langs) example_reply 5000))) = ''low'' \<and>
   team_projects_ratio (collaboration_signals (github_stats (projr
     (aggregateGitHubData ''octocat'' (Inr example_stats) (Inr example_langs) example_reply 5000)))) = 0"
proof -
  let ?agg = "aggregateGitHubData ''octocat'' (Inr example_stats) (Inr example_langs) example_reply 5000"
  have r: "?agg = Inr (projr ?agg)"
    using example_aggregate by (cases ?agg) simp_all
  have "top_repositories (github_stats (projr ?agg)) = [] \<and>
        readme_quality (github_stats (projr ?agg)) = ''poor'' \<and>
        documentation_signal (github_stats (projr ?agg)) = ''low'' \<and>
        team_projects_ratio (collaboration_signals (github_stats (projr ?agg))) = 0"
    using aggregateGitHubData_placeholders
            [where u = "''octocat''" and fetchStats_result = "Inr example_stats"
               and fetchTopLanguages_result = "Inr example_langs"
               and retryer_result = example_reply and t = 5000]
    by (subst (asm) r) simp
  then show ?thesis
    using example_aggregate by simp
qed

text \<open>
  C9.  With \<open>commitsPerYear = totalCommits / accountAgeYears\<close> (the age is not zero)
  the frequency is "low" exactly when \<open>commitsPerYear < 50\<close>, "medium" exactly when
  \<open>50 \<le> commitsPerYear < 200\<close>, and "high" otherwise; with
  \<open>commitsPerMonth = commitsPerYear / 12\<close> the consistency is "sporadic" exactly when
  \<open>commitsPerMonth < 2\<close>, "consistent" exactly when \<open>2 \<le> commitsPerMonth < 10\<close>,
  and "very_consistent" otherwise.  For 240 commits in 2 years: "medium" and
  "very_consistent".
\<close>

theorem commit_classifiers_thresholds:
  assumes "a \<noteq> 0"
  shows "(calculateCommitFrequency c a = ''low'' \<longleftrightarrow> c / a < 50) \<and>
         (calculateCommitFrequency c a = ''medium'' \<longleftrightarrow> 50 \<le> c / a \<and> c / a < 200) \<and>
         (calculateCommitFrequency c a = ''high'' \<longleftrightarrow> 200 \<le> c / a) \<and>
         (calculateCommitConsistency c a = ''sporadic'' \<longleftrightarrow> c / a / 12 < 2) \<and>
         (calculateCommitConsistency c a = ''consistent'' \<longleftrightarrow> 2 \<le> c / a / 12 \<and> c / a / 12 < 10) \<and>
         (calculateCommitConsistency c a = ''very_consistent'' \<longleftrightarrow> 10 \<le> c / a / 12) \<and>
         calculateCommitFrequency 240 2 = ''medium'' \<and>
         calculateCommitConsistency 240 2 = ''very_consistent''"
  using assms by (auto simp: calculateCommitFrequency_def calculateCommitConsistency_def Let_def)

theorem commit_classifiers_thresholds_witness:
  "(2 :: rat) \<noteq> 0 \<and>
   calculateCommitFrequency 99 2 = ''low'' \<and>
   calculateCommitFrequency 100 2 = ''medium'' \<and>
   calculateCommitFrequency 400 2 = ''high'' \<and>
   calculateCommitConsistency 48 2 = ''consistent'' \<and>
   calculateCommitConsistency 240 2 = ''very_consistent''"
proof -
  have two: "(2 :: rat) \<noteq> 0" by simp
  have "calculateCommitFrequency 99 2 = ''low''"
    using commit_classifiers_thresholds [OF two, of 99] by simp
  moreover have "calculateCommitFrequency 100 2 = ''medium''"
    using commit_classifiers_thresholds [OF two, of 100] by simp
  moreover have "calculateCommitFrequency 400 2 = ''high''"
    using commit_classifiers_thresholds [OF two, of 400] by simp
  moreover have "calculateCommitConsistency 48 2 = ''consistent''"
    using commit_classifiers_thresholds [OF two, of 48] by simp
  moreover have "calculateCommitConsistency 240 2 = ''very_consistent''"
    using commit_classifiers_thresholds [OF two, of 240] by simp
  ultimately show ?thesis
    using two by (intro conjI)
qed

lemma fetchUserProfile_age:
  assumes "fetchUserProfile r t = Inr p"
  shows "1 \<le> account_age_years p"
  using assms
  by (auto simp: fetchUserProfile_def Let_def split: sum.splits profile_reply.splits option.splits)

text \<open>
  C10.  Every profile that \<open>fetchUserProfile\<close> returns has
  \<open>account_age_years \<ge> 1\<close>.  So in \<open>aggregateGitHubData\<close> the age handed to the two
  classifiers is not zero: the divisor of \<open>commitsPerYear\<close> is not zero, and the
  classifications are those of the branches behind the zero-age guards.
\<close>

theorem account_age_at_least_one:
  "(\<forall>p. fetchUserProfile r t = Inr p \<longrightarrow> 1 \<le> account_age_years p) \<and>
   (\<forall>stats out. aggregateGitHubData u (Inr stats) l r t = Inr out \<longrightarrow>
      1 \<le> account_age_years (profile (candidate out)) \<and>
      (of_int (account_age_years (profile (candidate out))) :: rat) \<noteq> 0 \<and>
      commit_frequency (github_stats out) =
        (let commitsPerYear = of_nat (totalCommits stats) / of_int (account_age_years (profile (candidate out)))
         in if commitsPerYear < (50 :: rat) then ''low''
            else if commitsPerYear < 200 then ''medium'' else ''high'') \<and>
      commit_consistency (github_stats out) =
        (let commitsPerMonth =
               of_nat (totalCommits stats) / of_int (account_age_years (profile (candidate out))) / 12
         in if commitsPerMonth < (2 :: rat) then ''sporadic''
            else if commitsPerMonth < 10 then ''consistent'' else ''very_consistent''))"
proof (intro conjI allI impI)
  fix p assume "fetchUserProfile r t = Inr p"
  then show "1 \<le> account_age_years p" by (rule fetchUserProfile_age)
next
  fix stats out
  assume agg: "aggregateGitHubData u (Inr stats) l r t = Inr out"
  then obtain langs p where l: "l = Inr langs" and p: "fetchUserProfile r t = Inr p"
    by (auto simp: aggregateGitHubData_def split: sum.splits)
  have age: "1 \<le> account_age_years p" using p by (rule fetchUserProfile_age)
  have out: "account_age_years (profile (candidate out)) = account_age_years p"
    using agg by (auto simp: aggregateGitHubData_def l p Let_def)
  show "1 \<le> account_age_years (profile (candidate out))" using age out by simp
  show "(of_int (account_age_years (profile (candidate out))) :: rat) \<noteq> 0" using age out by simp
  show "commit_frequency (github_stats out) =
        (let commitsPerYear = of_nat (totalCommits stats) / of_int (account_age_years (profile (candidate out)))
         in if commitsPerYear < (50 :: rat) then ''low''
            else if commitsPerYear < 200 then ''medium'' else ''high'')"
    using agg age by (auto simp: aggregateGitHubData_def l p Let_def calculateCommitFrequency_def)
  show "commit_consistency (github_stats out) =
        (let commitsPerMonth =
               of_nat (totalCommits stats) / of_int (account_age_years (profile (candidate out))) / 12
         in if commitsPerMonth < (2 :: rat) then ''sporadic''
            else if commitsPerMonth < 10 then ''consistent'' else ''very_consistent'')"
    using agg age by (auto simp: aggregateGitHubData_def l p Let_def calculateCommitConsistency_def)
qed

theorem account_age_at_least_one_witness:
  "fetchUserProfile example_reply 5000 = Inr \<lparr>public_repos = 8, followers = 3, account_age_years = 1\<rparr> \<and>
   1 \<le> account_age_years \<lparr>public_repos = 8, followers = 3, account_age_years = 1\<rparr> \<and>
   isl (aggregateGitHubData ''octocat'' (Inr example_stats) (Inr example_langs) example_reply 5000) = False \<and>
   1 \<le> account_age_years (profile (candidate (projr
     (aggregateGitHubData ''octocat'' (Inr example_stats) (Inr example_langs) example_reply 5000)))) \<and>
   commit_frequency (github_stats (projr
     (aggregateGitHubData ''octocat'' (Inr example_stats) (Inr example_langs) example_reply 5000))) = ''high''"
proof -
  let ?agg = "aggregateGitHubData ''octocat'' (Inr example_stats) (Inr example_langs) example_reply 5000"
  have f: "fetchUserProfile example_reply 5000 =
             Inr \<lparr>public_repos = 8, followers = 3, account_age_years = 1\<rparr>"
    by (simp add: fetchUserProfile_def example_reply_def)
  have r: "?agg = Inr (projr ?agg)"
    using example_aggregate by (cases ?agg) simp_all
  note age = account_age_at_least_one
               [where r = example_reply and t = 5000 and u = "''octocat''" and l = "Inr example_langs"]
  have a1: "1 \<le> account_age_years \<lparr>public_repos = 8, followers = 3, account_age_years = 1\<rparr>"
    using age [THEN conjunct1, rule_format, OF f] .
  note out = age [THEN conjunct2, rule_format, OF r]
  have a2: "1 \<le> account_age_years (profile (candidate (projr ?agg)))"
    using out by simp
  have y: "account_age_years (profile (candidate (projr ?agg))) = 1"
    by (simp add: aggregateGitHubData_def f Let_def)
  have a3: "commit_frequency (github_stats (projr ?agg)) = ''high''"
    using out y by (simp add: example_stats_def)
  from f a1 example_aggregate a2 a3 show ?thesis
    by (intro conjI)
qed

section \<open>Properties of the scoring client\<close>

text \<open>
  C7.  The claim is that a \<open>confidence_percentage\<close> that is present and out of range
  or not a number is surfaced clamped into [0,100].  For a string that is no numeric
  literal, such as \<open>"85%"\<close>, \<open>Math.min(100, "85%")\<close> is \<open>NaN\<close> and so is
  \<open>Math.max(0, NaN)\<close>: the response is accepted and carries \<open>NaN\<close>, which is not
  in [0,100], whatever the runtime parameters.
\<close>

theorem analyzeWithOpenAI_confidence_string_gives_NaN:
  "analyzeWithOpenAI_parsed rt (example_analysis (JString ''85%'')) =
     Inr (example_analysis (JNumber NaN)) \<and>
   confidence_of (example_analysis (JNumber NaN)) = Some (JNumber NaN)"
  by (simp add: analyzeWithOpenAI_parsed_def example_analysis_def clamp_confidence_def
        StringToNumber_def trim_def isWhiteSpace_def numeric_literal_chars_def confidence_of_def)

text \<open>The response with \<open>"85%"\<close> is accepted, and the value it then carries is \<open>NaN\<close>.\<close>

theorem analyzeWithOpenAI_confidence_string_gives_NaN_witness:
  "isl (analyzeWithOpenAI_parsed example_runtime (example_analysis (JString ''85%''))) = False \<and>
   confidence_of (projr (analyzeWithOpenAI_parsed example_runtime (example_analysis (JString ''85%'')))) =
     Some (JNumber NaN)"
  using analyzeWithOpenAI_confidence_string_gives_NaN [of example_runtime]
  by simp

text \<open>
  For a number the claim holds: 150 is surfaced as 100, and every number that
  \<open>JSON.parse\<close> can return is surfaced inside [0,100], unchanged when it was inside.
\<close>

lemma analyzeWithOpenAI_confidence_150:
  "analyzeWithOpenAI_parsed rt (example_analysis (JNumber (Finite 150))) =
     Inr (example_analysis (JNumber (Finite 100)))"
  by (simp add: analyzeWithOpenAI_parsed_def example_analysis_def clamp_confidence_def)

lemma map_of_set_property: "map_of (set_property kvs key v) key = Some v"
  by (induction kvs key v rule: set_property.induct) auto

lemma clamp_number:
  assumes "n \<noteq> NaN"
  shows "\<exists>m. clamp_confidence rt (JNumber n) = Inr m \<and> m \<noteq> NaN \<and>
             \<not> number_less m (Finite 0) \<and> \<not> number_less (Finite 100) m"
  using assms by (cases n) (auto simp: clamp_confidence_def)

lemma analyzeWithOpenAI_number_clamped:
  assumes "truthy_json (property analysis ''engineer_summary'')"
    and "truthy_json (property analysis ''job_fit_analysis'')"
    and "truthy_json (property analysis ''recommendations'')"
    and "property analysis ''hiring_recommendation'' = Some (JObject hr)"
    and "map_of hr ''confidence_percentage'' = Some (JNumber n)"
    and "n \<noteq> NaN"
  shows "\<exists>analysis' m. analyzeWithOpenAI_parsed rt analysis = Inr analysis' \<and>
           confidence_of analysis' = Some (JNumber m) \<and> m \<noteq> NaN \<and>
           \<not> number_less m (Finite 0) \<and> \<not> number_less (Finite 100) m \<and>
           (\<not> number_less n (Finite 0) \<and> \<not> number_less (Finite 100) n \<longrightarrow> analysis' = analysis)"
proof -
  obtain sections where a: "analysis = JObject sections"
    using assms(4) by (cases analysis) simp_all
  show ?thesis
  proof (cases "invalid_confidence (JNumber n)")
    case False
    then have "analyzeWithOpenAI_parsed rt analysis = Inr analysis"
      using assms a by (simp add: analyzeWithOpenAI_parsed_def)
    moreover have "confidence_of analysis = Some (JNumber n)"
      using assms by (simp add: confidence_of_def)
    ultimately show ?thesis using False assms(6) by auto
  next
    case True
    obtain m where m: "clamp_confidence rt (JNumber n) = Inr m" "m \<noteq> NaN"
        "\<not> number_less m (Finite 0)" "\<not> number_less (Finite 100) m"
      using clamp_number [OF assms(6)] by blast
    let ?out = "JObject (set_property sections ''hiring_recommendation''
                  (JObject (set_property hr ''confidence_percentage'' (JNumber m))))"
    have "analyzeWithOpenAI_parsed rt analysis = Inr ?out"
      using assms a True m(1) by (simp add: analyzeWithOpenAI_parsed_def)
    moreover have "confidence_of ?out = Some (JNumber m)"
      by (simp add: confidence_of_def map_of_set_property)
    ultimately show ?thesis using m True by auto
  qed
qed

end
